theory Spec2Isabelle
  imports Main
begin

section \<open>JavaScript values used by the front-end\<close>

text \<open>
  A JavaScript string is a sequence of UTF-16 code units; \<open>length\<close>, \<open>slice\<close> and
  \<open>charCodeAt\<close> count code units, while \<open>for (const c of s)\<close> walks code points, a
  surrogate pair being one code point of length two.  Source text, identifier names and
  token values are therefore lists of code units.  The messages of errors are built from
  fixed ASCII text and decimal numbers only, and are kept as HOL strings.
\<close>

type_synonym jsstring = "nat list"

definition str :: "string \<Rightarrow> jsstring" where
  "str s = map of_char s"

text \<open>\<open>xs.slice(start, end)\<close>: a negative index counts from the end, both are clamped.\<close>

definition slice :: "'a list \<Rightarrow> int \<Rightarrow> int \<Rightarrow> 'a list" where
  "slice xs start end =
     (let len = int (length xs);
          from = (if start < 0 then max (len + start) 0 else min start len);
          to = (if end < 0 then max (len + end) 0 else min end len)
      in take (nat (to - from)) (drop (nat from) xs))"

text \<open>\<open>xs.slice(start)\<close>: up to the end of the array.\<close>

definition sliceFrom :: "'a list \<Rightarrow> int \<Rightarrow> 'a list" where
  "sliceFrom xs start = slice xs start (int (length xs))"

text \<open>\<open>xs.indexOf(x)\<close> and \<open>xs.findIndex(p)\<close>; \<open>None\<close> stands for \<open>-1\<close>.\<close>

fun findIndex :: "('a \<Rightarrow> bool) \<Rightarrow> 'a list \<Rightarrow> nat option" where
  "findIndex p [] = None"
| "findIndex p (x # xs) =
     (if p x then Some 0 else map_option Suc (findIndex p xs))"

definition indexOf :: "'a list \<Rightarrow> 'a \<Rightarrow> nat option" where
  "indexOf xs x = findIndex (\<lambda>y. y = x) xs"

text \<open>The decimal rendering of a non-negative integer inside a template literal.\<close>

definition digitChar :: "nat \<Rightarrow> char" where
  "digitChar d = ''0123456789'' ! d"

fun showNat :: "nat \<Rightarrow> string" where
  "showNat n = (if n < 10 then [digitChar n] else showNat (n div 10) @ [digitChar (n mod 10)])"

declare showNat.simps [simp del]

datatype error = ParseError string | TypeError

section \<open>Tokeniser\<close>

subsection \<open>Lines\<close>

text \<open>
  The characters the pattern \<open>.\<close> does not match (line terminators), and the white space
  of \<open>\s\<close> and \<open>trim\<close>.
\<close>

definition isLineTerminator :: "nat \<Rightarrow> bool" where
  "isLineTerminator u \<longleftrightarrow> u = 10 \<or> u = 13 \<or> u = 8232 \<or> u = 8233"

definition isWhiteSpace :: "nat \<Rightarrow> bool" where
  "isWhiteSpace u \<longleftrightarrow>
     u = 9 \<or> u = 10 \<or> u = 11 \<or> u = 12 \<or> u = 13 \<or> u = 32 \<or> u = 160 \<or> u = 5760 \<or>
     (8192 \<le> u \<and> u \<le> 8202) \<or> u = 8232 \<or> u = 8233 \<or> u = 8239 \<or> u = 8287 \<or>
     u = 12288 \<or> u = 65279"

text \<open>
  \<open>source.matchAll(/(.*)((?:\r?\n)|$)/gu)\<close>, as the list of the first groups of the
  successive matches.  A match starts where the previous one ended, takes the run of
  characters up to the next line terminator, and needs \<open>\n\<close>, \<open>\r\n\<close> or the end of the
  input there.  At any other terminator (a \<open>\r\<close> alone, U+2028, U+2029) no match starts
  at or before it, so the search resumes behind it and the run before it is in no
  match.  The last match is the empty one at the end of the input.
\<close>

function matchLines :: "jsstring \<Rightarrow> jsstring list" where
  "matchLines source =
     (let run = takeWhile (\<lambda>u. \<not> isLineTerminator u) source;
          rest = dropWhile (\<lambda>u. \<not> isLineTerminator u) source
      in case rest of
           [] \<Rightarrow> (if run = [] then [[]] else [run, []])
         | t # after \<Rightarrow>
             (if t = 10 then run # matchLines after
              else case after of
                     [] \<Rightarrow> matchLines after
                   | n # after' \<Rightarrow>
                       (if t = 13 \<and> n = 10 then run # matchLines after'
                        else matchLines after)))"
  by pat_completeness auto
termination
proof (relation "measure length")
  fix source :: jsstring and run rest t after
  assume r: "rest = dropWhile (\<lambda>u. \<not> isLineTerminator u) source" "rest = t # after"
  have "length rest \<le> length source"
    unfolding r(1) by (rule length_dropWhile_le)
  with r(2) have a: "length after < length source" by simp
  show "(after, source) \<in> measure length" using a by simp
  show "(after, source) \<in> measure length" using a by simp
  show "(after, source) \<in> measure length" using a by simp
  fix n after'
  assume "after = n # after'"
  with a show "(after', source) \<in> measure length" by simp
qed simp

declare matchLines.simps [simp del]

record sourceLine =
  lineColumn :: nat
  lineSpace :: nat
  lineText :: jsstring

text \<open>\<open>raw.match(/^\s*/)[0]\<close> measured with a tab as 8, and \<open>raw.trim()\<close>.\<close>

definition leadingSpace :: "jsstring \<Rightarrow> nat" where
  "leadingSpace raw =
     fold (\<lambda>char space. if char = 9 then space + 8 else space + 1)
       (takeWhile isWhiteSpace raw) 0"

definition trim :: "jsstring \<Rightarrow> jsstring" where
  "trim raw = rev (dropWhile isWhiteSpace (rev (dropWhile isWhiteSpace raw)))"

fun iterateLineFrom :: "nat \<Rightarrow> jsstring list \<Rightarrow> sourceLine list" where
  "iterateLineFrom column [] = []"
| "iterateLineFrom column (raw # raws) =
     (if raw \<noteq> []
      then \<lparr>lineColumn = column, lineSpace = leadingSpace raw, lineText = trim raw\<rparr>
             # iterateLineFrom (column + 1) raws
      else iterateLineFrom (column + 1) raws)"

definition iterateLine :: "jsstring \<Rightarrow> sourceLine list" where
  "iterateLine source = iterateLineFrom 0 (matchLines source)"

subsection \<open>Code points\<close>

datatype codepoint = CodePoint jsstring | EOL

definition isHighSurrogate :: "nat \<Rightarrow> bool" where
  "isHighSurrogate u \<longleftrightarrow> 55296 \<le> u \<and> u \<le> 56319"

definition isLowSurrogate :: "nat \<Rightarrow> bool" where
  "isLowSurrogate u \<longleftrightarrow> 56320 \<le> u \<and> u \<le> 57343"

text \<open>
  \<open>iterateCodePoint\<close>: the string iterator yields a surrogate pair as one code point of
  length 2 and every other code unit alone; \<open>row\<close> advances by that length, and the
  sentinel comes last.
\<close>

fun iterateCodePointFrom :: "nat \<Rightarrow> jsstring \<Rightarrow> (nat \<times> codepoint) list" where
  "iterateCodePointFrom row [] = [(row, EOL)]"
| "iterateCodePointFrom row [u] = [(row, CodePoint [u]), (row + 1, EOL)]"
| "iterateCodePointFrom row (u # v # text) =
     (if isHighSurrogate u \<and> isLowSurrogate v
      then (row, CodePoint [u, v]) # iterateCodePointFrom (row + 2) text
      else (row, CodePoint [u]) # iterateCodePointFrom (row + 1) (v # text))"

definition iterateCodePoint :: "jsstring \<Rightarrow> (nat \<times> codepoint) list" where
  "iterateCodePoint text = iterateCodePointFrom 0 text"

text \<open>
  \<open>codePoint.charCodeAt(0)\<close> is the first code unit; the comparisons are on it.  The
  apostrophe is the code unit 39.
\<close>

definition isNumberCodePoint :: "codepoint \<Rightarrow> bool" where
  "isNumberCodePoint codePoint =
     (case codePoint of
        EOL \<Rightarrow> False
      | CodePoint [] \<Rightarrow> False
      | CodePoint (code # _) \<Rightarrow> 48 \<le> code \<and> code \<le> 57)"

definition isIdentifierCodePoint :: "codepoint \<Rightarrow> bool" where
  "isIdentifierCodePoint codePoint =
     (case codePoint of
        EOL \<Rightarrow> False
      | CodePoint cp \<Rightarrow>
          (if cp = str ''@'' \<or> cp = str ''$'' \<or> cp = str ''?'' \<or> cp = str ''_'' \<or> cp = [39]
           then True
           else case cp of
                  [] \<Rightarrow> False
                | code # _ \<Rightarrow>
                    (97 \<le> code \<and> code \<le> 122) \<or> (65 \<le> code \<and> code \<le> 90) \<or>
                    (48 \<le> code \<and> code \<le> 57) \<or> 256 \<le> code))"

subsection \<open>Tokens\<close>

datatype token =
    is_IdentifierToken: IdentifierToken jsstring
  | MemoryToken
  | IfToken
  | WhileToken
  | DefToken
  | ConstToken
  | NumericLiteralToken jsstring
  | OperatorToken jsstring
  | SeparatorToken
  | AssignmentToken
  | ParentheseStartToken
  | ParentheseEndToken
  | BracketStartToken
  | BracketEndToken

text \<open>\<open>Token & { row: number }\<close>\<close>

datatype rtoken = Tok (type: token) (row: nat)

record lineToken =
  column :: nat
  indent :: nat
  tokens :: "rtoken list"

subsection \<open>The state machine of one line\<close>

datatype tstate = S_identifier | S_literal | S_minus | S_angle_or_exclamation | S_slash

text \<open>
  The variables of the loop over the code points of a line: the comment depth (which
  outlives the line), \<open>state\<close>, \<open>startRow\<close> and the tokens pushed so far.
\<close>

record lineVars =
  multiLineCommentCount :: nat
  state :: "tstate option"
  startRow :: nat
  pushed :: "rtoken list"

datatype 'a flow = Continue 'a | Break 'a | Throw error

definition push :: "token \<Rightarrow> nat \<Rightarrow> lineVars \<Rightarrow> lineVars" where
  "push t r v = v\<lparr>pushed := pushed v @ [Tok t r]\<rparr>"

definition keywordOrIdentifier :: "jsstring \<Rightarrow> token" where
  "keywordOrIdentifier word =
     (if word = str ''memory'' then MemoryToken
      else if word = str ''if'' then IfToken
      else if word = str ''while'' then WhileToken
      else if word = str ''def'' then DefToken
      else if word = str ''const'' then ConstToken
      else IdentifierToken word)"

text \<open>
  The \<open>switch (state)\<close>: \<open>Continue\<close> is \<open>continue loop\<close>, \<open>Break\<close> leaves the switch for
  the code behind it.
\<close>

definition switchState ::
  "nat \<Rightarrow> jsstring \<Rightarrow> nat \<Rightarrow> codepoint \<Rightarrow> lineVars \<Rightarrow> lineVars flow" where
  "switchState col text r codePoint v =
     (case state v of
        None \<Rightarrow> Break v
      | Some S_identifier \<Rightarrow>
          (if isIdentifierCodePoint codePoint then Continue v
           else let word = slice text (int (startRow v)) (int r)
                in Break ((push (keywordOrIdentifier word) (startRow v + 1) v)\<lparr>state := None\<rparr>))
      | Some S_literal \<Rightarrow>
          (if isNumberCodePoint codePoint then Continue v
           else let number = slice text (int (startRow v)) (int r)
                in Break ((push (NumericLiteralToken number) (startRow v + 1) v)\<lparr>state := None\<rparr>))
      | Some S_minus \<Rightarrow>
          (if codePoint = CodePoint (str ''>'')
           then Continue ((push AssignmentToken (startRow v + 1) v)\<lparr>state := None\<rparr>)
           else Break ((push (OperatorToken (str ''-'')) (startRow v + 1) v)\<lparr>state := None\<rparr>))
      | Some S_angle_or_exclamation \<Rightarrow>
          (if codePoint = CodePoint (str ''='')
           then Continue ((push (OperatorToken (slice text (int (startRow v)) (int r + 1)))
                             (startRow v + 1) v)\<lparr>state := None\<rparr>)
           else let operator = slice text (int (startRow v)) (int r)
                in if operator = str ''!''
                   then Throw (ParseError (showNat (col + 1) @ '' '' @ showNat (startRow v + 1)
                                 @ '': There should be only '' @ [CHR 0x27] @ ''='' @ [CHR 0x27]
                                 @ '' after the '' @ [CHR 0x27] @ ''!'' @ [CHR 0x27]))
                   else Break ((push (OperatorToken operator) (startRow v + 1) v)\<lparr>state := None\<rparr>))
      | Some S_slash \<Rightarrow>
          (if codePoint = CodePoint (str ''*'')
           then Continue (v\<lparr>multiLineCommentCount := 1, state := None\<rparr>)
           else Break ((push (OperatorToken (str ''/'')) (startRow v + 1) v)\<lparr>state := None\<rparr>)))"

text \<open>The chain of tests behind the switch, reached with no token in progress.\<close>

definition startToken :: "nat \<Rightarrow> codepoint \<Rightarrow> lineVars \<Rightarrow> lineVars flow" where
  "startToken r codePoint v =
     (if codePoint = CodePoint (str ''#'') then Break v
      else if codePoint = CodePoint (str ''-'')
        then Continue (v\<lparr>state := Some S_minus, startRow := r\<rparr>)
      else if codePoint = CodePoint (str ''<'') \<or> codePoint = CodePoint (str ''>'')
              \<or> codePoint = CodePoint (str ''!'')
        then Continue (v\<lparr>state := Some S_angle_or_exclamation, startRow := r\<rparr>)
      else if codePoint = CodePoint (str ''/'')
        then Continue (v\<lparr>state := Some S_slash, startRow := r\<rparr>)
      else if codePoint = CodePoint (str ''+'') \<or> codePoint = CodePoint (str ''='')
              \<or> codePoint = CodePoint (str ''*'')
        then Continue (push (OperatorToken (case codePoint of CodePoint cp \<Rightarrow> cp | EOL \<Rightarrow> []))
                         (r + 1) v)
      else if codePoint = CodePoint (str '','') then Continue (push SeparatorToken (r + 1) v)
      else if codePoint = CodePoint (str ''('') then Continue (push ParentheseStartToken (r + 1) v)
      else if codePoint = CodePoint (str '')'') then Continue (push ParentheseEndToken (r + 1) v)
      else if codePoint = CodePoint (str ''['') then Continue (push BracketStartToken (r + 1) v)
      else if codePoint = CodePoint (str '']'') then Continue (push BracketEndToken (r + 1) v)
      else if isNumberCodePoint codePoint
        then Continue (v\<lparr>state := Some S_literal, startRow := r\<rparr>)
      else if isIdentifierCodePoint codePoint
        then Continue (v\<lparr>state := Some S_identifier, startRow := r\<rparr>)
      else Continue v)"

text \<open>
  The body of the loop for one code point: inside a block comment only the two code
  units ending at \<open>row\<close> are looked at; \<open>Break\<close> is \<open>break loop\<close>.
\<close>

definition lineStep ::
  "nat \<Rightarrow> jsstring \<Rightarrow> nat \<Rightarrow> codepoint \<Rightarrow> lineVars \<Rightarrow> lineVars flow" where
  "lineStep col text r codePoint v =
     (if multiLineCommentCount v > 0
      then let operator = slice text (int r - 1) (int r + 1)
           in if operator = str ''/*''
              then Continue (v\<lparr>multiLineCommentCount := multiLineCommentCount v + 1\<rparr>)
              else if operator = str ''*/''
              then Continue (v\<lparr>multiLineCommentCount := multiLineCommentCount v - 1\<rparr>)
              else Continue v
      else case switchState col text r codePoint v of
             Continue v' \<Rightarrow> Continue v'
           | Throw e \<Rightarrow> Throw e
           | Break v' \<Rightarrow>
               (if state v' \<noteq> None then Continue v' else startToken r codePoint v'))"

fun scanLine ::
  "nat \<Rightarrow> jsstring \<Rightarrow> (nat \<times> codepoint) list \<Rightarrow> lineVars \<Rightarrow> error + lineVars" where
  "scanLine col text [] v = Inr v"
| "scanLine col text ((r, codePoint) # rest) v =
     (case lineStep col text r codePoint v of
        Continue v' \<Rightarrow> scanLine col text rest v'
      | Break v' \<Rightarrow> Inr v'
      | Throw e \<Rightarrow> Inl e)"

subsection \<open>The loop over the lines\<close>

record tokVars =
  lineTokens :: "lineToken list"
  indents :: "nat list"
  commentCount :: nat

text \<open>
  \<open>indents.indexOf(space)\<close> decides between cutting the stack behind the level found,
  pushing a deeper level, and the error.  \<open>indents\<close> is never empty.
\<close>

definition updateIndents :: "nat \<Rightarrow> nat \<Rightarrow> nat list \<Rightarrow> error + nat list" where
  "updateIndents col space ind =
     (case indexOf ind space of
        None \<Rightarrow>
          (if last ind > space
           then Inl (ParseError (showNat (col + 1) @ '': Invalid indent space''))
           else Inr (ind @ [space]))
      | Some indentIndex \<Rightarrow> Inr (take (indentIndex + 1) ind))"

definition tokeniseLine :: "tokVars \<Rightarrow> sourceLine \<Rightarrow> error + tokVars" where
  "tokeniseLine s l =
     (case scanLine (lineColumn l) (lineText l) (iterateCodePoint (lineText l))
             \<lparr>multiLineCommentCount = commentCount s, state = None, startRow = 0, pushed = []\<rparr> of
        Inl e \<Rightarrow> Inl e
      | Inr v \<Rightarrow>
          (case updateIndents (lineColumn l) (lineSpace l) (indents s) of
             Inl e \<Rightarrow> Inl e
           | Inr ind \<Rightarrow>
               Inr \<lparr>lineTokens =
                      (if pushed v \<noteq> []
                       then lineTokens s @
                              [\<lparr>column = lineColumn l + 1, indent = length ind - 1,
                                tokens = pushed v\<rparr>]
                       else lineTokens s),
                    indents = ind,
                    commentCount = multiLineCommentCount v\<rparr>))"

fun tokeniseLines :: "tokVars \<Rightarrow> sourceLine list \<Rightarrow> error + tokVars" where
  "tokeniseLines s [] = Inr s"
| "tokeniseLines s (l # ls) =
     (case tokeniseLine s l of Inl e \<Rightarrow> Inl e | Inr s' \<Rightarrow> tokeniseLines s' ls)"

text \<open>
  \<open>parseToTokens\<close>, exported to the parser as \<open>tokenise\<close>.  The final test reads the
  column of the last line token pushed; with none pushed that is a property of
  \<open>undefined\<close>, a \<open>TypeError\<close>.
\<close>

definition parseToTokens :: "jsstring \<Rightarrow> error + lineToken list" where
  "parseToTokens source =
     (case tokeniseLines \<lparr>lineTokens = [], indents = [0], commentCount = 0\<rparr> (iterateLine source) of
        Inl e \<Rightarrow> Inl e
      | Inr s \<Rightarrow>
          (if commentCount s \<noteq> 0
           then (if lineTokens s = [] then Inl TypeError
                 else Inl (ParseError (showNat (column (last (lineTokens s)))
                             @ '': The multi-line comment is not closed'')))
           else Inr (lineTokens s)))"

section \<open>Parser\<close>

subsection \<open>Expressions\<close>

datatype expression =
    is_UnaryExpression: UnaryExpression jsstring expression
  | is_BinaryExpression: BinaryExpression jsstring expression expression
  | is_MemberExpression: MemberExpression expression expression
  | is_CallExpression: CallExpression expression "expression list"
  | is_Identifier: Identifier jsstring
  | is_NumericLiteral: NumericLiteral int

datatype expressionState = Binary expression | Unary jsstring

text \<open>
  \<open>Number.parseInt(s, 10)\<close>: leading white space is skipped, a sign is read, then the
  longest run of decimal digits; with no digit the result is \<open>NaN\<close>, here \<open>None\<close>.  The
  result is a double: every integer below \<open>2 ^ 53\<close> in magnitude is one, and a longer
  digit string is rounded to a double that is at least \<open>2 ^ 53\<close>, hence outside the 32-bit
  range as the exact integer is.  The test \<open>value !== (value | 0)\<close> behind it has the same
  outcome on the exact integer, which is the value kept here; \<open>-0\<close> is \<open>0\<close>.
\<close>

definition isDigit :: "nat \<Rightarrow> bool" where
  "isDigit u \<longleftrightarrow> 48 \<le> u \<and> u \<le> 57"

definition decimalValue :: "jsstring \<Rightarrow> int" where
  "decimalValue ds = foldl (\<lambda>acc d. acc * 10 + (int d - 48)) 0 ds"

definition parseInt :: "jsstring \<Rightarrow> int option" where
  "parseInt s =
     (let t = dropWhile isWhiteSpace s;
          negative = (case t of [] \<Rightarrow> False | c # _ \<Rightarrow> c = 45);
          body = (case t of [] \<Rightarrow> [] | c # r \<Rightarrow> if c = 45 \<or> c = 43 then r else t);
          ds = takeWhile isDigit body
      in if ds = [] then None
         else Some (if negative then - decimalValue ds else decimalValue ds))"

text \<open>\<open>value | 0\<close>: the conversion to a signed 32-bit integer, wrapping around.\<close>

definition toInt32 :: "int \<Rightarrow> int" where
  "toInt32 v = (v + 2 ^ 31) mod 2 ^ 32 - 2 ^ 31"

text \<open>\<open>xs[i]\<close>, \<open>undefined\<close> out of range.\<close>

definition at :: "'a list \<Rightarrow> nat \<Rightarrow> 'a option" where
  "at xs i = (if i < length xs then Some (xs ! i) else None)"

text \<open>
  The loop that looks for the bracket closing the one at \<open>tokens[1]\<close>, over the entries
  of \<open>tokens.slice(1)\<close>; the result is \<open>bracketEndIndex\<close>, \<open>None\<close> for \<open>-1\<close>.
\<close>

fun bracketEnd :: "rtoken list \<Rightarrow> nat \<Rightarrow> int \<Rightarrow> nat option" where
  "bracketEnd [] index count = None"
| "bracketEnd (token # rest) index count =
     (if type token = BracketStartToken then bracketEnd rest (index + 1) (count + 1)
      else if type token = BracketEndToken
        then (if count - 1 = 0 then Some (index + 1) else bracketEnd rest (index + 1) (count - 1))
      else bracketEnd rest (index + 1) count)"

text \<open>The same for the parenthesis at \<open>tokens[0]\<close>, over the entries of \<open>tokens\<close>.\<close>

fun parentheseEnd :: "rtoken list \<Rightarrow> nat \<Rightarrow> int \<Rightarrow> nat option" where
  "parentheseEnd [] index count = None"
| "parentheseEnd (token # rest) index count =
     (if type token = ParentheseStartToken then parentheseEnd rest (index + 1) (count + 1)
      else if type token = ParentheseEndToken
        then (if count - 1 = 0 then Some index else parentheseEnd rest (index + 1) (count - 1))
      else parentheseEnd rest (index + 1) count)"

text \<open>
  The loop that cuts an argument list at the separators of depth 1.  It runs over the
  entries of \<open>tokens.slice(off)\<close>, where the opening parenthesis is \<open>tokens[off]\<close>: \<open>off\<close>
  is 1 in a call (slices from \<open>start + 2\<close> to \<open>index + 1\<close>) and 2 in a \<open>def\<close> line (from
  \<open>start + 3\<close> to \<open>index + 2\<close>).  The result is the slices pushed and
  \<open>parentheseEndIndex\<close>.
\<close>

fun splitArguments ::
  "nat \<Rightarrow> rtoken list \<Rightarrow> rtoken list \<Rightarrow> nat \<Rightarrow> int \<Rightarrow> nat \<Rightarrow> rtoken list list
     \<Rightarrow> rtoken list list \<times> nat option" where
  "splitArguments off toks [] index count start argumentTokens = (argumentTokens, None)"
| "splitArguments off toks (token # rest) index count start argumentTokens =
     (if type token = ParentheseStartToken
        then splitArguments off toks rest (index + 1) (count + 1) start argumentTokens
      else if type token = ParentheseEndToken
        then (if count - 1 = 0
              then ((if start + off + 1 \<noteq> index + off
                     then argumentTokens @
                            [slice toks (int (start + off + 1)) (int (index + off))]
                     else argumentTokens),
                    Some (index + off))
              else splitArguments off toks rest (index + 1) (count - 1) start argumentTokens)
      else if type token = SeparatorToken \<and> count = 1
        then splitArguments off toks rest (index + 1) count index
               (argumentTokens @ [slice toks (int (start + off + 1)) (int (index + off))])
      else splitArguments off toks rest (index + 1) count start argumentTokens)"

text \<open>
  The rotation loop: while the right child of \<open>root\<close> is a binary expression, that
  child becomes the root, with the old root (now holding the child's left operand as
  its right one) as its left operand.
\<close>

fun leftRotate :: "jsstring \<Rightarrow> expression \<Rightarrow> expression \<Rightarrow> expression" where
  "leftRotate operator left (BinaryExpression operator' left' right') =
     leftRotate operator' (BinaryExpression operator left left') right'"
| "leftRotate operator left right = BinaryExpression operator left right"

text \<open>\<open>state?.type === "unary" ? { UnaryExpression, state.operator, e } : e\<close>\<close>

definition wrapUnary :: "expressionState option \<Rightarrow> expression \<Rightarrow> expression" where
  "wrapUnary st e = (case st of Some (Unary operator) \<Rightarrow> UnaryExpression operator e | _ \<Rightarrow> e)"

text \<open>\<open>xs.map(f)\<close> with an \<open>f\<close> that may throw: the first exception, in order, leaves.\<close>

fun sequence :: "(error + 'a) list \<Rightarrow> error + 'a list" where
  "sequence [] = Inr []"
| "sequence (Inl e # xs) = Inl e"
| "sequence (Inr x # xs) = (case sequence xs of Inl e \<Rightarrow> Inl e | Inr ys \<Rightarrow> Inr (x # ys))"

definition positionError :: "nat \<Rightarrow> nat \<Rightarrow> string \<Rightarrow> error" where
  "positionError col r message = ParseError (showNat col @ '' '' @ showNat r @ '': '' @ message)"

definition lineError :: "nat \<Rightarrow> string \<Rightarrow> error" where
  "lineError col message = ParseError (showNat col @ '': '' @ message)"

lemma length_slice_Cons: "0 < s \<Longrightarrow> length (slice (x # xs) s e) \<le> length xs"
  by (auto simp: slice_def Let_def min_def max_def)

lemma length_sliceFrom_Cons: "0 < s \<Longrightarrow> length (sliceFrom (x # xs) s) \<le> length xs"
  unfolding sliceFrom_def by (rule length_slice_Cons)

lemma splitArguments_length:
  assumes "splitArguments off (x # xs) rest index count start acc = (args, r)"
    and "ts \<in> set args" and "\<forall>ts \<in> set acc. length ts \<le> length xs"
  shows "length ts \<le> length xs"
  using assms
proof (induction off "x # xs" rest index count start acc rule: splitArguments.induct)
  case (1 off index count start argumentTokens)
  then show ?case by auto
next
  case (2 off token rest index count start argumentTokens)
  have sl: "length (slice (x # xs) (int (start + off + 1)) (int (index + off))) \<le> length xs"
    by (rule length_slice_Cons) simp
  show ?case
    using "2.hyps" "2.prems" sl
    by (fastforce split: if_splits)
qed

text \<open>
  \<open>parseExpression\<close>, with \<open>None\<close> for the state \<open>null\<close>.  The keywords and the
  assignment token are refused before the switch over the token types, so the last
  alternative of the case, which stands for them, is never reached.
\<close>

definition forbiddenInExpression :: "token \<Rightarrow> bool" where
  "forbiddenInExpression t \<longleftrightarrow>
     t = IfToken \<or> t = WhileToken \<or> t = DefToken \<or> t = ConstToken \<or> t = AssignmentToken"

function parseExpression ::
  "nat \<Rightarrow> rtoken list \<Rightarrow> expressionState option \<Rightarrow> error + expression" where
  "parseExpression col toks st =
     (case toks of
        [] \<Rightarrow> Inl (lineError col ''Syntax Error'')
      | token # _ \<Rightarrow>
        if forbiddenInExpression (type token)
        then Inl (positionError col (row token)
                    ''It contains words that must not be included in the expression'')
        else
        (case st of
           Some (Binary left) \<Rightarrow>
             (case type token of
                OperatorToken operator \<Rightarrow>
                  (case parseExpression col (sliceFrom toks 1) None of
                     Inl e \<Rightarrow> Inl e
                   | Inr right \<Rightarrow> Inr (leftRotate operator left right))
              | _ \<Rightarrow> Inl (positionError col (row token) ''Syntax Error''))
         | _ \<Rightarrow>
             (case type token of
                BracketStartToken \<Rightarrow> Inl (positionError col (row token) ''Syntax Error'')
              | BracketEndToken \<Rightarrow> Inl (positionError col (row token) ''Syntax Error'')
              | ParentheseEndToken \<Rightarrow> Inl (positionError col (row token) ''Syntax Error'')
              | SeparatorToken \<Rightarrow> Inl (positionError col (row token) ''Syntax Error'')
              | IdentifierToken name \<Rightarrow>
                  (if length toks = 1 then Inr (wrapUnary st (Identifier name))
                   else if map_option type (at toks 1) = Some BracketStartToken then
                     (case bracketEnd (sliceFrom toks 1) 0 0 of
                        None \<Rightarrow> Inl (positionError col (row (toks ! 1)) ''The bracket is not closed'')
                      | Some bracketEndIndex \<Rightarrow>
                          (let propertyTokens = slice toks 2 (int bracketEndIndex) in
                           if propertyTokens = []
                           then Inl (positionError col (row (toks ! 1))
                                       ''The contents of the bracket are empty'')
                           else case parseExpression col propertyTokens None of
                                  Inl e \<Rightarrow> Inl e
                                | Inr property \<Rightarrow>
                                    (let expression =
                                           wrapUnary st (MemberExpression (Identifier name) property);
                                         remains = sliceFrom toks (int (bracketEndIndex + 1))
                                     in if remains = [] then Inr expression
                                        else parseExpression col remains (Some (Binary expression)))))
                   else if map_option type (at toks 1) = Some ParentheseStartToken then
                     (case splitArguments 1 toks (sliceFrom toks 1) 0 0 0 [] of
                        (_, None) \<Rightarrow>
                          Inl (positionError col (row (toks ! 1)) ''The parenthese is not closed'')
                      | (argumentTokens, Some parentheseEndIndex) \<Rightarrow>
                          (case sequence (map (\<lambda>ts. parseExpression col ts None) argumentTokens) of
                             Inl e \<Rightarrow> Inl e
                           | Inr arguments \<Rightarrow>
                               (let expression =
                                      wrapUnary st (CallExpression (Identifier name) arguments);
                                    remains = sliceFrom toks (int (parentheseEndIndex + 1))
                                in if remains = [] then Inr expression
                                   else parseExpression col remains (Some (Binary expression)))))
                   else parseExpression col (sliceFrom toks 1)
                          (Some (Binary (wrapUnary st (Identifier name)))))
              | MemoryToken \<Rightarrow>
                  (case at toks 1 of
                     None \<Rightarrow>
                       Inl (positionError col (row token + 6)
                              ''It must be a bracket after `memory` keyword'')
                   | Some next \<Rightarrow>
                       if type next \<noteq> BracketStartToken
                       then Inl (positionError col (row next)
                                   ''It must be a bracket after `memory` keyword'')
                       else
                       (case bracketEnd (sliceFrom toks 1) 0 0 of
                          None \<Rightarrow> Inl (positionError col (row next) ''The bracket is not closed'')
                        | Some bracketEndIndex \<Rightarrow>
                            (let propertyTokens = slice toks 2 (int bracketEndIndex) in
                             if propertyTokens = []
                             then Inl (positionError col (row next)
                                         ''The contents of the bracket are empty'')
                             else case parseExpression col propertyTokens None of
                                    Inl e \<Rightarrow> Inl e
                                  | Inr property \<Rightarrow>
                                      (let expression =
                                             wrapUnary st
                                               (MemberExpression (Identifier (str ''memory'')) property);
                                           remains = sliceFrom toks (int (bracketEndIndex + 1))
                                       in if remains = [] then Inr expression
                                          else parseExpression col remains
                                                 (Some (Binary expression))))))
              | NumericLiteralToken digits \<Rightarrow>
                  (case parseInt digits of
                     None \<Rightarrow> Inl (positionError col (row token) ''Out of range integer value'')
                   | Some raw \<Rightarrow>
                       (let value = (if st = Some (Unary (str ''-'')) then - raw else raw) in
                        if value \<noteq> toInt32 value
                        then Inl (positionError col (row token) ''Out of range integer value'')
                        else if length toks = 1 then Inr (NumericLiteral value)
                        else parseExpression col (sliceFrom toks 1)
                               (Some (Binary (NumericLiteral value)))))
              | OperatorToken operator \<Rightarrow>
                  (if operator \<noteq> str ''+'' \<and> operator \<noteq> str ''-''
                   then Inl (positionError col (row token) ''Invalid operator'')
                   else parseExpression col (sliceFrom toks 1) (Some (Unary operator)))
              | ParentheseStartToken \<Rightarrow>
                  (case parentheseEnd toks 0 0 of
                     None \<Rightarrow> Inl (positionError col (row token) ''The parenthese is not closed'')
                   | Some parentheseEndIndex \<Rightarrow>
                       (let parentheseTokens = slice toks 1 (int parentheseEndIndex) in
                        if parentheseTokens = []
                        then Inl (positionError col (row token)
                                    ''The parenthese of the bracket are empty'')
                        else case parseExpression col parentheseTokens None of
                               Inl e \<Rightarrow> Inl e
                             | Inr parentheseExpression \<Rightarrow>
                                 (let expression = wrapUnary st parentheseExpression in
                                  if parentheseEndIndex = length toks - 1 then Inr expression
                                  else parseExpression col
                                         (sliceFrom toks (int (parentheseEndIndex + 1)))
                                         (Some (Binary expression)))))
              | _ \<Rightarrow> Inl (positionError col (row token)
                           ''It contains words that must not be included in the expression''))))"
  by pat_completeness auto
termination
  by (relation "measure (\<lambda>(col, toks, st). length toks)")
     (auto simp: less_Suc_eq_le length_slice_Cons length_sliceFrom_Cons
           dest: splitArguments_length [OF sym])

declare parseExpression.simps [simp del]

subsection \<open>Statements\<close>

datatype statement =
    AssignmentStatement expression expression
  | ExpressionStatement expression
  | IfStatement expression "statement list"
  | WhileStatement expression "statement list"
  | ConstantStatement expression expression
  | FunctionDeclaration expression "expression list" "statement list"

datatype program = Program "statement list"

text \<open>
  While \<open>parse\<close> runs, the body of an \<open>if\<close>, \<open>while\<close> or \<open>def\<close> is an array shared by
  the statement that owns it and by the stack \<open>statements\<close>, and grows through the
  stack after the statement has been pushed.  The arrays are kept in a store, by
  address in order of creation (address 0 is the body of the program); a statement
  under construction holds the address of its body.
\<close>

type_synonym ref = nat

datatype node =
    AssignmentNode expression expression
  | ExpressionNode expression
  | IfNode expression ref
  | WhileNode expression ref
  | ConstantNode expression expression
  | FunctionNode expression "expression list" ref

record parseVars =
  arrays :: "node list list"
  statements :: "ref option list"
  minIndent :: "nat option"
  maxIndent :: "nat option"
  lastLineToken :: "lineToken option"

text \<open>\<open>xs.length = n\<close> cuts the array or extends it with empty slots (\<open>None\<close>).\<close>

definition setLength :: "nat \<Rightarrow> 'a option list \<Rightarrow> 'a option list" where
  "setLength n xs = take n xs @ replicate (n - length xs) None"

text \<open>
  \<open>statements[i].push(n)\<close>: a \<open>TypeError\<close> where the slot is empty or absent, else the
  array at that address grows by \<open>n\<close>.
\<close>

definition pushTo :: "ref option option \<Rightarrow> node \<Rightarrow> node list list \<Rightarrow> error + node list list" where
  "pushTo slot n arrs =
     (case slot of
        Some (Some a) \<Rightarrow> Inr (arrs[a := arrs ! a @ [n]])
      | _ \<Rightarrow> Inl TypeError)"

definition lastSlot :: "'a list \<Rightarrow> 'a option" where
  "lastSlot xs = (if xs = [] then None else Some (last xs))"

text \<open>The lines that begin with an identifier or with \<open>memory\<close>.\<close>

definition parseSimple :: "parseVars \<Rightarrow> nat \<Rightarrow> nat \<Rightarrow> rtoken list \<Rightarrow> error + parseVars" where
  "parseSimple s col ind toks =
     (case findIndex (\<lambda>t. type t = AssignmentToken) toks of
        Some index \<Rightarrow>
          (let leftTokens = slice toks 0 (int index) in
           if leftTokens = []
           then Inl (positionError col (row (toks ! index))
                       ''The left side of the assignment operator is empty'')
           else case parseExpression col leftTokens None of
                  Inl e \<Rightarrow> Inl e
                | Inr left \<Rightarrow>
                    if \<not> is_MemberExpression left \<and> \<not> is_Identifier left
                    then Inl (positionError col (row (leftTokens ! 0))
                                ''The left side of the assignment operator is not assignable'')
                    else
                      (let rightTokens = sliceFrom toks (int (index + 1)) in
                       if rightTokens = []
                       then Inl (positionError col (row (toks ! index))
                                   ''The right side of the assignment operator is empty'')
                       else case parseExpression col rightTokens None of
                              Inl e \<Rightarrow> Inl e
                            | Inr right \<Rightarrow>
                                (case pushTo (lastSlot (statements s)) (AssignmentNode left right)
                                        (arrays s) of
                                   Inl e \<Rightarrow> Inl e
                                 | Inr arrs \<Rightarrow> Inr (s\<lparr>arrays := arrs, maxIndent := Some ind\<rparr>))))
      | None \<Rightarrow>
          (case parseExpression col toks None of
             Inl e \<Rightarrow> Inl e
           | Inr expression \<Rightarrow>
               if \<not> is_CallExpression expression
               then Inl (lineError col ''This expression has no effect'')
               else case pushTo (lastSlot (statements s)) (ExpressionNode expression) (arrays s) of
                      Inl e \<Rightarrow> Inl e
                    | Inr arrs \<Rightarrow> Inr (s\<lparr>arrays := arrs, maxIndent := Some ind\<rparr>)))"

text \<open>
  The lines that begin with \<open>if\<close> or \<open>while\<close>, the same code but for the word and the
  statement built; \<open>mk\<close> is that statement, given the test and the fresh body.
\<close>

definition parseBlock ::
  "string \<Rightarrow> (expression \<Rightarrow> ref \<Rightarrow> node) \<Rightarrow> parseVars \<Rightarrow> nat \<Rightarrow> nat \<Rightarrow> rtoken list
     \<Rightarrow> error + parseVars" where
  "parseBlock word mk s col ind toks =
     (let testTokens = sliceFrom toks 1 in
      if testTokens = []
      then Inl (positionError col (row (toks ! 0) + 2)
                  (''There is no condition in the `'' @ word @ ''` statement''))
      else case parseExpression col testTokens None of
             Inl e \<Rightarrow> Inl e
           | Inr test \<Rightarrow>
               (let body = length (arrays s) in
                case pushTo (lastSlot (statements s)) (mk test body) (arrays s @ [[]]) of
                  Inl e \<Rightarrow> Inl e
                | Inr arrs \<Rightarrow>
                    Inr (s\<lparr>arrays := arrs, statements := statements s @ [Some body],
                           minIndent := Some (ind + 1)\<rparr>)))"

definition parseConst :: "parseVars \<Rightarrow> nat \<Rightarrow> nat \<Rightarrow> rtoken list \<Rightarrow> error + parseVars" where
  "parseConst s col ind toks =
     (if ind \<noteq> 0
      then Inl (positionError col (row (toks ! 0))
                  ''`const` keyword must be in the root scope (no indent)'')
      else case at toks 1 of
             None \<Rightarrow> Inl TypeError
           | Some identifierToken \<Rightarrow>
               if \<not> is_IdentifierToken (type identifierToken)
               then Inl (positionError col (row identifierToken)
                           ''`const` keyword must be followed by an identifier'')
               else case parseExpression col [identifierToken] None of
                      Inl e \<Rightarrow> Inl e
                    | Inr identifier \<Rightarrow>
                        (case at toks 2 of
                           None \<Rightarrow> Inl TypeError
                         | Some assignmentToken \<Rightarrow>
                             if type assignmentToken \<noteq> AssignmentToken
                             then Inl (positionError col (row assignmentToken)
                                         ''Invalid `const` statement'')
                             else
                               (let rightTokens = sliceFrom toks 3 in
                                if rightTokens = []
                                then Inl (positionError col (row assignmentToken)
                                            ''The right side of the assignment operator is empty'')
                                else case parseExpression col rightTokens None of
                                       Inl e \<Rightarrow> Inl e
                                     | Inr right \<Rightarrow>
                                         (case pushTo (at (statements s) 0)
                                                 (ConstantNode identifier right) (arrays s) of
                                            Inl e \<Rightarrow> Inl e
                                          | Inr arrs \<Rightarrow>
                                              Inr (s\<lparr>arrays := arrs, maxIndent := Some ind\<rparr>)))))"

definition parseDef :: "parseVars \<Rightarrow> nat \<Rightarrow> nat \<Rightarrow> rtoken list \<Rightarrow> error + parseVars" where
  "parseDef s col ind toks =
     (if ind \<noteq> 0
      then Inl (positionError col (row (toks ! 0))
                  ''`def` keyword must be in the root scope (no indent)'')
      else case at toks 1 of
             None \<Rightarrow> Inl TypeError
           | Some identifierToken \<Rightarrow>
               if \<not> is_IdentifierToken (type identifierToken)
               then Inl (positionError col (row identifierToken)
                           ''`def` keyword must be followed by an identifier'')
               else case parseExpression col [identifierToken] None of
                      Inl e \<Rightarrow> Inl e
                    | Inr identifier \<Rightarrow>
                        (case at toks 2 of
                           None \<Rightarrow> Inl TypeError
                         | Some parentheseStartToken \<Rightarrow>
                             if type parentheseStartToken \<noteq> ParentheseStartToken
                             then Inl (positionError col (row parentheseStartToken)
                                         ''Invalid `def` statement'')
                             else
                               (case splitArguments 2 toks (sliceFrom toks 2) 0 0 0 [] of
                                  (_, None) \<Rightarrow>
                                    Inl (positionError col (row identifierToken)
                                           ''The parenthese is not closed'')
                                | (paramtokens, Some parentheseEndIndex) \<Rightarrow>
                                    (case sequence
                                            (map (\<lambda>ts. parseExpression col ts None) paramtokens) of
                                       Inl e \<Rightarrow> Inl e
                                     | Inr params \<Rightarrow>
                                         if \<exists>expression \<in> set params. \<not> is_Identifier expression
                                         then Inl (lineError col ''Invalid parameters'')
                                         else
                                           (let body = length (arrays s) in
                                            case pushTo (at (statements s) 0)
                                                   (FunctionNode identifier params body)
                                                   (arrays s @ [[]]) of
                                              Inl e \<Rightarrow> Inl e
                                            | Inr arrs \<Rightarrow>
                                                Inr (s\<lparr>arrays := arrs,
                                                       statements := statements s @ [Some body],
                                                       minIndent := Some (ind + 1)\<rparr>))))))"

text \<open>The body of the loop of \<open>parse\<close> for one line.\<close>

definition indentViolation :: "parseVars \<Rightarrow> nat \<Rightarrow> bool" where
  "indentViolation s ind \<longleftrightarrow>
     (case minIndent s of None \<Rightarrow> False | Some m \<Rightarrow> m > ind) \<or>
     (case maxIndent s of None \<Rightarrow> False | Some m \<Rightarrow> m < ind)"

definition dispatch :: "parseVars \<Rightarrow> nat \<Rightarrow> nat \<Rightarrow> rtoken list \<Rightarrow> error + parseVars" where
  "dispatch s col ind toks =
     (case toks of
        [] \<Rightarrow> Inl TypeError
      | token # _ \<Rightarrow>
          (case type token of
             IdentifierToken _ \<Rightarrow> parseSimple s col ind toks
           | MemoryToken \<Rightarrow> parseSimple s col ind toks
           | IfToken \<Rightarrow> parseBlock ''if'' IfNode s col ind toks
           | WhileToken \<Rightarrow> parseBlock ''while'' WhileNode s col ind toks
           | ConstToken \<Rightarrow> parseConst s col ind toks
           | DefToken \<Rightarrow> parseDef s col ind toks
           | _ \<Rightarrow> Inl (lineError col ''Syntax Error'')))"

definition parseLine :: "parseVars \<Rightarrow> lineToken \<Rightarrow> error + parseVars" where
  "parseLine s lt =
     (if indentViolation s (indent lt)
      then Inl (lineError (column lt) ''Invalid indent space'')
      else case dispatch
                  (s\<lparr>minIndent := None, maxIndent := None,
                     statements := setLength (indent lt + 1) (statements s)\<rparr>)
                  (column lt) (indent lt) (tokens lt) of
             Inl e \<Rightarrow> Inl e
           | Inr s' \<Rightarrow> Inr (s'\<lparr>lastLineToken := Some lt\<rparr>))"

fun parseLines :: "parseVars \<Rightarrow> lineToken list \<Rightarrow> error + parseVars" where
  "parseLines s [] = Inr s"
| "parseLines s (lt # lts) =
     (case parseLine s lt of Inl e \<Rightarrow> Inl e | Inr s' \<Rightarrow> parseLines s' lts)"

text \<open>
  The tree that the returned object is: each statement with the final contents of its
  body.  A body is created after the array that holds its statement, so its address is
  the larger one.
\<close>

function freeze :: "node list list \<Rightarrow> ref \<Rightarrow> statement list" where
  "freeze arrs a =
     (if a < length arrs
      then map (\<lambda>n. case n of
                      AssignmentNode left right \<Rightarrow> AssignmentStatement left right
                    | ExpressionNode expression \<Rightarrow> ExpressionStatement expression
                    | IfNode test body \<Rightarrow>
                        IfStatement test (if a < body then freeze arrs body else [])
                    | WhileNode test body \<Rightarrow>
                        WhileStatement test (if a < body then freeze arrs body else [])
                    | ConstantNode left right \<Rightarrow> ConstantStatement left right
                    | FunctionNode identifier params body \<Rightarrow>
                        FunctionDeclaration identifier params
                          (if a < body then freeze arrs body else []))
             (arrs ! a)
      else [])"
  by pat_completeness auto
termination
  by (relation "measure (\<lambda>(arrs, a). length arrs - a)") auto

declare freeze.simps [simp del]

definition initialVars :: parseVars where
  "initialVars =
     \<lparr>arrays = [[]], statements = [Some 0], minIndent = None, maxIndent = None,
      lastLineToken = None\<rparr>"

definition parse :: "lineToken list \<Rightarrow> error + program" where
  "parse lts =
     (case parseLines initialVars lts of
        Inl e \<Rightarrow> Inl e
      | Inr s \<Rightarrow>
          (case (minIndent s, lastLineToken s) of
             (Some _, Some lt) \<Rightarrow>
               Inl (lineError (column lt)
                      ''There is no body for the last `if` or `while` or `def` statement'')
           | _ \<Rightarrow> Inr (Program (freeze (arrays s) 0))))"

text \<open>The pipeline of \<open>index.ts\<close>.\<close>

definition compile :: "jsstring \<Rightarrow> error + program" where
  "compile source = (case parseToTokens source of Inl e \<Rightarrow> Inl e | Inr lts \<Rightarrow> parse lts)"

section \<open>Notions the properties are stated with\<close>



text \<open>A line token with every row moved to the right by \<open>k\<close>.\<close>

definition shiftRows :: "nat \<Rightarrow> lineToken \<Rightarrow> lineToken" where
  "shiftRows k lt = lt\<lparr>tokens := map (\<lambda>t. Tok (type t) (row t + k)) (tokens lt)\<rparr>"

text \<open>A signed 32-bit integer, and the value of a digit string under a pending sign.\<close>

definition int32 :: "int \<Rightarrow> bool" where
  "int32 v \<longleftrightarrow> - (2 ^ 31) \<le> v \<and> v < 2 ^ 31"

definition digitString :: "jsstring \<Rightarrow> bool" where
  "digitString d \<longleftrightarrow> d \<noteq> [] \<and> list_all isDigit d"

definition signedValue :: "expressionState option \<Rightarrow> jsstring \<Rightarrow> int" where
  "signedValue st d =
     (if st = Some (Unary (str ''-'')) then - decimalValue d else decimalValue d)"

definition expectsOperand :: "expressionState option \<Rightarrow> bool" where
  "expectsOperand st \<longleftrightarrow> (case st of Some (Binary _) \<Rightarrow> False | _ \<Rightarrow> True)"

text \<open>
  Every body in a statement is non-empty; every expression statement in it holds a
  call.
\<close>

fun nonEmptyBodies :: "statement \<Rightarrow> bool" where
  "nonEmptyBodies (IfStatement test body) = (body \<noteq> [] \<and> list_all nonEmptyBodies body)"
| "nonEmptyBodies (WhileStatement test body) = (body \<noteq> [] \<and> list_all nonEmptyBodies body)"
| "nonEmptyBodies (FunctionDeclaration identifier params body) =
     (body \<noteq> [] \<and> list_all nonEmptyBodies body)"
| "nonEmptyBodies _ = True"

fun callStatements :: "statement \<Rightarrow> bool" where
  "callStatements (ExpressionStatement expression) = is_CallExpression expression"
| "callStatements (IfStatement test body) = list_all callStatements body"
| "callStatements (WhileStatement test body) = list_all callStatements body"
| "callStatements (FunctionDeclaration identifier params body) = list_all callStatements body"
| "callStatements _ = True"

definition opensBlock :: "lineToken \<Rightarrow> bool" where
  "opensBlock lt \<longleftrightarrow>
     (case tokens lt of
        [] \<Rightarrow> False
      | token # _ \<Rightarrow> type token = IfToken \<or> type token = WhileToken \<or> type token = DefToken)"

section \<open>Invariants\<close>






text \<open>
  What an accepted line does to the store and to the stack of \<open>parse\<close>: a statement
  without a body is pushed to the array of a slot, or a statement is pushed together
  with its fresh, empty body, which becomes the top of the stack.  The invariant of the
  loop: the stack has no empty slot, a body lies behind the array that holds its
  statement, and a body is empty only while it is the top of the stack and the next line
  has to be indented into it.
\<close>

fun bodyRef :: "node \<Rightarrow> ref option" where
  "bodyRef (IfNode test body) = Some body"
| "bodyRef (WhileNode test body) = Some body"
| "bodyRef (FunctionNode identifier params body) = Some body"
| "bodyRef _ = None"

fun callNode :: "node \<Rightarrow> bool" where
  "callNode (ExpressionNode expression) = is_CallExpression expression"
| "callNode _ = True"

definition slotOf :: "parseVars \<Rightarrow> nat \<Rightarrow> ref \<Rightarrow> bool" where
  "slotOf s ind a \<longleftrightarrow>
     lastSlot (statements s) = Some (Some a) \<or> ind = 0 \<and> at (statements s) 0 = Some (Some a)"

definition pushed_simple :: "parseVars \<Rightarrow> nat \<Rightarrow> ref \<Rightarrow> node \<Rightarrow> parseVars \<Rightarrow> bool" where
  "pushed_simple s ind a n s' \<longleftrightarrow>
     slotOf s ind a \<and> bodyRef n = None \<and> callNode n \<and>
     arrays s' = (arrays s)[a := arrays s ! a @ [n]] \<and>
     statements s' = statements s \<and> minIndent s' = minIndent s"

definition pushed_block :: "parseVars \<Rightarrow> nat \<Rightarrow> ref \<Rightarrow> node \<Rightarrow> parseVars \<Rightarrow> bool" where
  "pushed_block s ind a n s' \<longleftrightarrow>
     slotOf s ind a \<and> bodyRef n = Some (length (arrays s)) \<and> callNode n \<and>
     arrays s' = (arrays s @ [[]])[a := (arrays s @ [[]]) ! a @ [n]] \<and>
     statements s' = statements s @ [Some (length (arrays s))] \<and>
     minIndent s' = Some (ind + 1)"

definition okNode :: "parseVars \<Rightarrow> ref \<Rightarrow> node \<Rightarrow> bool" where
  "okNode s a n \<longleftrightarrow>
     callNode n \<and>
     (\<forall>b. bodyRef n = Some b \<longrightarrow>
        a < b \<and> b < length (arrays s) \<and>
        (arrays s ! b \<noteq> [] \<or> minIndent s \<noteq> None \<and> last (statements s) = Some b))"

definition wf :: "parseVars \<Rightarrow> bool" where
  "wf s \<longleftrightarrow>
     statements s \<noteq> [] \<and> hd (statements s) = Some 0 \<and>
     (\<forall>slot \<in> set (statements s). \<exists>a. slot = Some a \<and> a < length (arrays s)) \<and>
     (\<forall>a n. a < length (arrays s) \<and> n \<in> set (arrays s ! a) \<longrightarrow> okNode s a n) \<and>
     (\<forall>m. minIndent s = Some m \<longrightarrow> length (statements s) = m + 1)"

definition frozenOK :: "node list list \<Rightarrow> bool" where
  "frozenOK arrs \<longleftrightarrow>
     (\<forall>a n. a < length arrs \<and> n \<in> set (arrs ! a) \<longrightarrow>
        callNode n \<and> (\<forall>b. bodyRef n = Some b \<longrightarrow> a < b \<and> b < length arrs \<and> arrs ! b \<noteq> []))"

section \<open>Evaluation\<close>

lemmas js_eval =
  str_def slice_def sliceFrom_def indexOf_def showNat.simps digitChar_def at_def Let_def

lemmas tokenise_eval =
  js_eval parseToTokens_def iterateLine_def matchLines.simps isLineTerminator_def
  leadingSpace_def trim_def isWhiteSpace_def iterateCodePoint_def isHighSurrogate_def
  isLowSurrogate_def isNumberCodePoint_def isIdentifierCodePoint_def tokeniseLine_def
  updateIndents_def lineStep_def switchState_def startToken_def push_def
  keywordOrIdentifier_def

lemmas parse_eval =
  js_eval compile_def parse_def initialVars_def parseLine_def dispatch_def
  indentViolation_def parseSimple_def parseBlock_def parseConst_def parseDef_def pushTo_def
  lastSlot_def setLength_def freeze.simps parseExpression.simps forbiddenInExpression_def
  wrapUnary_def positionError_def lineError_def parseInt_def toInt32_def decimalValue_def
  isDigit_def isWhiteSpace_def

section \<open>Facts about the tokeniser\<close>







lemma push_fields [simp]:
  "state (push t r v) = state v" "multiLineCommentCount (push t r v) = multiLineCommentCount v"
  "startRow (push t r v) = startRow v"
  by (simp_all add: push_def)















section \<open>Facts about the expression parser\<close>

lemma toInt32_iff: "v = toInt32 v \<longleftrightarrow> int32 v"
proof -
  have "(v = toInt32 v) = ((v + 2 ^ 31) mod 2 ^ 32 = v + 2 ^ 31)"
    unfolding toInt32_def by auto
  also have "\<dots> = int32 v"
    unfolding int32_def zmod_trivial_iff by auto
  finally show ?thesis .
qed

lemma digit_not_space: "isDigit c \<Longrightarrow> \<not> isWhiteSpace c \<and> c \<noteq> 45 \<and> c \<noteq> 43"
  by (auto simp: isDigit_def isWhiteSpace_def)

lemma parseInt_digitString: "digitString d \<Longrightarrow> parseInt d = Some (decimalValue d)"
proof -
  assume d: "digitString d"
  then obtain c r where cr: "d = c # r" "isDigit c" "list_all isDigit r"
    by (cases d) (auto simp: digitString_def)
  have tw: "takeWhile isDigit r = r"
    using cr(3) by (simp add: takeWhile_eq_all_conv list_all_iff)
  show ?thesis
    using cr(1,2) digit_not_space [OF cr(2)]
    by (simp add: parseInt_def Let_def tw)
qed

lemma sliceFrom_1: "sliceFrom (x # xs) 1 = xs"
  by (simp add: sliceFrom_def slice_def Let_def)







lemma literal_operand:
  assumes "digitString d" and "expectsOperand st"
  shows "parseExpression col (Tok (NumericLiteralToken d) r # rest) st =
     (if int32 (signedValue st d)
      then (if rest = [] then Inr (NumericLiteral (signedValue st d))
            else parseExpression col rest (Some (Binary (NumericLiteral (signedValue st d)))))
      else Inl (ParseError (showNat col @ '' '' @ showNat r @ '': Out of range integer value'')))"
proof (cases st)
  case None
  then show ?thesis
    using assms
    apply (subst parseExpression.simps)
    apply (simp add: forbiddenInExpression_def parseInt_digitString sliceFrom_1 signedValue_def
      toInt32_iff [symmetric] positionError_def Let_def)
    done
next
  case (Some a)
  then obtain operator where "a = Unary operator" using assms(2) by (cases a) (auto simp: expectsOperand_def)
  then show ?thesis
    using assms Some
    apply (subst parseExpression.simps)
    apply (simp add: forbiddenInExpression_def parseInt_digitString sliceFrom_1 signedValue_def
      toInt32_iff [symmetric] positionError_def Let_def)
    done
qed

section \<open>Facts about the statement parser\<close>

lemma pushTo_Inr:
  "pushTo slot n arrs = Inr arrs' \<Longrightarrow> \<exists>a. slot = Some (Some a) \<and> arrs' = arrs[a := arrs ! a @ [n]]"
  by (auto simp: pushTo_def split: option.splits)

lemma pushed_simpleI:
  "lastSlot (statements s) = Some (Some a) \<or> ind = 0 \<and> at (statements s) 0 = Some (Some a) \<Longrightarrow>
   bodyRef n = None \<Longrightarrow> callNode n \<Longrightarrow>
   \<exists>a' n'. pushed_simple s ind a' n'
     (s\<lparr>arrays := (arrays s)[a := arrays s ! a @ [n]], maxIndent := Some ind\<rparr>)"
  unfolding pushed_simple_def slotOf_def by (intro exI [of _ a] exI [of _ n]) simp

lemma pushed_blockI:
  "lastSlot (statements s) = Some (Some a) \<or> ind = 0 \<and> at (statements s) 0 = Some (Some a) \<Longrightarrow>
   bodyRef n = Some (length (arrays s)) \<Longrightarrow> callNode n \<Longrightarrow>
   \<exists>a' n'. pushed_block s ind a' n'
     (s\<lparr>arrays := (arrays s @ [[]])[a := (arrays s @ [[]]) ! a @ [n]],
        statements := statements s @ [Some (length (arrays s))],
        minIndent := Some (Suc ind)\<rparr>)"
  unfolding pushed_block_def slotOf_def by (intro exI [of _ a] exI [of _ n]) simp

lemma parseSimple_effect:
  "parseSimple s col ind toks = Inr s' \<Longrightarrow> \<exists>a n. pushed_simple s ind a n s'"
  unfolding parseSimple_def
  by (auto simp: Let_def split: option.splits sum.splits if_splits dest!: pushTo_Inr
      intro!: pushed_simpleI)

lemma parseConst_effect:
  "parseConst s col ind toks = Inr s' \<Longrightarrow> \<exists>a n. pushed_simple s ind a n s'"
  unfolding parseConst_def
  by (auto simp: Let_def split: option.splits sum.splits if_splits dest!: pushTo_Inr
      intro!: pushed_simpleI)

lemma parseBlock_effect:
  "parseBlock word mk s col ind toks = Inr s' \<Longrightarrow> mk = IfNode \<or> mk = WhileNode \<Longrightarrow>
   \<exists>a n. pushed_block s ind a n s'"
  unfolding parseBlock_def
  by (auto simp: Let_def split: option.splits sum.splits if_splits dest!: pushTo_Inr
      intro!: pushed_blockI)

lemma parseDef_effect:
  "parseDef s col ind toks = Inr s' \<Longrightarrow> \<exists>a n. pushed_block s ind a n s'"
  unfolding parseDef_def
  by (auto simp: Let_def split: option.splits sum.splits if_splits prod.splits
      dest!: pushTo_Inr intro!: pushed_blockI)

lemma dispatch_effect:
  "dispatch s col ind toks = Inr s' \<Longrightarrow>
   \<exists>a n. pushed_simple s ind a n s' \<or> pushed_block s ind a n s'"
  unfolding dispatch_def
  by (auto split: list.splits token.splits
      dest!: parseSimple_effect parseConst_effect parseBlock_effect parseDef_effect)

lemma lastSlot_setLength:
  assumes "lastSlot (setLength (Suc i) xs) = Some (Some a)"
  shows "i < length xs \<and> xs ! i = Some a \<and> setLength (Suc i) xs = take (Suc i) xs"
proof (cases "i < length xs")
  case True
  then have t: "setLength (Suc i) xs = take (Suc i) xs"
    by (simp add: setLength_def)
  have "last (take (Suc i) xs) = xs ! i"
    using True by (simp add: take_Suc_conv_app_nth)
  with assms t True show ?thesis
    by (simp add: lastSlot_def split: if_splits)
next
  case False
  then have "setLength (Suc i) xs = xs @ replicate (Suc i - length xs) None" "Suc i - length xs \<noteq> 0"
    by (simp_all add: setLength_def)
  then have "last (setLength (Suc i) xs) = None"
    by (cases "Suc i - length xs") (simp_all add: replicate_append_same [symmetric] del: replicate_Suc)
  with assms show ?thesis
    by (simp add: lastSlot_def split: if_splits)
qed

lemma at_0_setLength:
  "xs \<noteq> [] \<Longrightarrow> at (setLength (Suc 0) xs) 0 = lastSlot (setLength (Suc 0) xs)"
  by (cases xs) (simp_all add: setLength_def at_def lastSlot_def)

lemma parseLine_wf:
  assumes wf: "wf s" and step: "parseLine s lt = Inr s'"
  shows "wf s'"
proof -
  define ind where "ind = indent lt"
  define stk where "stk = setLength (Suc ind) (statements s)"
  define s1 where "s1 = s\<lparr>minIndent := None, maxIndent := None, statements := stk\<rparr>"
  define arrs where "arrs = arrays s"
  from step obtain s2 where nv: "\<not> indentViolation s ind"
    and d: "dispatch s1 (column lt) ind (tokens lt) = Inr s2"
    and s': "s' = s2\<lparr>lastLineToken := Some lt\<rparr>"
    by (auto simp: parseLine_def s1_def stk_def ind_def split: if_splits sum.splits)
  have ne: "statements s \<noteq> []" and hd0: "hd (statements s) = Some 0"
    and slots: "\<And>slot. slot \<in> set (statements s) \<Longrightarrow> \<exists>a. slot = Some a \<and> a < length arrs"
    and nodes: "\<And>a n. a < length arrs \<Longrightarrow> n \<in> set (arrs ! a) \<Longrightarrow> okNode s a n"
    and minI: "\<And>m. minIndent s = Some m \<Longrightarrow> length (statements s) = m + 1"
    using wf unfolding wf_def arrs_def by blast+
  from dispatch_effect [OF d] obtain a n
    where eff: "pushed_simple s1 ind a n s2 \<or> pushed_block s1 ind a n s2"
    by blast
  then have sl: "slotOf s1 ind a" and cn: "callNode n"
    by (auto simp: pushed_simple_def pushed_block_def)
  have slot: "lastSlot stk = Some (Some a)"
    using sl at_0_setLength [OF ne] by (auto simp: slotOf_def s1_def stk_def)
  have s1: "arrays s1 = arrs" "statements s1 = stk"
    by (simp_all add: s1_def arrs_def)
  from lastSlot_setLength [OF slot [unfolded stk_def]]
  have il: "ind < length (statements s)" and ai: "statements s ! ind = Some a"
    and stk: "stk = take (Suc ind) (statements s)"
    by (simp_all add: stk_def)
  from il ai have "Some a \<in> set (statements s)"
    by (metis nth_mem)
  with slots have al: "a < length arrs" by auto
  have top: "last (statements s) = Some a" if "minIndent s \<noteq> None"
  proof -
    from that obtain m where m: "minIndent s = Some m" by auto
    with nv have "m \<le> ind" by (simp add: indentViolation_def)
    with minI [OF m] il have "ind = m" "length (statements s) = Suc ind" by simp_all
    with ai ne show ?thesis by (simp add: last_conv_nth)
  qed
  have stk_ne: "stk \<noteq> []" and stk_hd: "hd stk = Some 0"
    using ne hd0 by (simp_all add: stk)
  have stk_slots: "\<And>slot. slot \<in> set stk \<Longrightarrow> \<exists>a. slot = Some a \<and> a < length arrs"
    using slots by (auto simp: stk dest: in_set_takeD)
  have old: "b < length arrs \<and> a' < b \<and> (arrs[a := arrs ! a @ [n]]) ! b \<noteq> []"
    if "a' < length arrs" "n' \<in> set (arrs ! a')" "bodyRef n' = Some b" for a' n' b
  proof -
    from nodes [OF that(1,2)] that(3)
    have b: "a' < b" "b < length arrs"
      and c: "arrs ! b \<noteq> [] \<or> minIndent s \<noteq> None \<and> last (statements s) = Some b"
      by (auto simp: okNode_def arrs_def)
    from c top have "arrs ! b \<noteq> [] \<or> b = a" by auto
    with b al show ?thesis by (auto simp: nth_list_update)
  qed
  have oldc: "callNode n'" if "a' < length arrs" "n' \<in> set (arrs ! a')" for a' n'
    using nodes [OF that] by (simp add: okNode_def)
  from eff show ?thesis
  proof
    assume "pushed_simple s1 ind a n s2"
    then have e: "bodyRef n = None" "arrays s' = arrs[a := arrs ! a @ [n]]"
      "statements s' = stk" "minIndent s' = None"
      by (simp_all add: pushed_simple_def s1 s') (simp add: s1_def)
    have "okNode s' a' n'"
      if "a' < length arrs" "n' \<in> set ((arrs[a := arrs ! a @ [n]]) ! a')" for a' n'
    proof (cases "n' \<in> set (arrs ! a')")
      case True
      have "a' < b \<and> b < length (arrays s') \<and> arrays s' ! b \<noteq> []"
        if "bodyRef n' = Some b" for b
        using old [OF \<open>a' < length arrs\<close> True that] by (simp add: e)
      with oldc [OF \<open>a' < length arrs\<close> True] show ?thesis
        unfolding okNode_def by blast
    next
      case False
      with that al have "n' = n" by (auto simp: nth_list_update split: if_splits)
      with e cn show ?thesis by (simp add: okNode_def)
    qed
    then show ?thesis
      using stk_ne stk_hd stk_slots
      by (auto simp: wf_def e)
  next
    assume "pushed_block s1 ind a n s2"
    then have e: "bodyRef n = Some (length arrs)"
      "arrays s' = (arrs @ [[]])[a := (arrs @ [[]]) ! a @ [n]]"
      "statements s' = stk @ [Some (length arrs)]" "minIndent s' = Some (ind + 1)"
      by (simp_all add: pushed_block_def s1 s')
    have upd: "(arrs @ [[]])[a := (arrs @ [[]]) ! a @ [n]] = arrs[a := arrs ! a @ [n]] @ [[]]"
      using al by (simp add: list_update_append nth_append)
    have e2: "arrays s' = arrs[a := arrs ! a @ [n]] @ [[]]"
      using e(2) unfolding upd .
    have "okNode s' a' n'"
      if "a' < Suc (length arrs)" "n' \<in> set ((arrs[a := arrs ! a @ [n]] @ [[]]) ! a')" for a' n'
    proof -
      from that have a': "a' < length arrs" and n': "n' \<in> set ((arrs[a := arrs ! a @ [n]]) ! a')"
        by (auto simp: nth_append split: if_splits)
      show ?thesis
      proof (cases "n' \<in> set (arrs ! a')")
        case True
        have "a' < b \<and> b < length (arrays s') \<and> arrays s' ! b \<noteq> []"
          if "bodyRef n' = Some b" for b
          using old [OF a' True that] by (simp add: e2 nth_append)
        with oldc [OF a' True] show ?thesis
          unfolding okNode_def by blast
      next
        case False
        with a' n' al have "n' = n" "a' = a" by (auto simp: nth_list_update split: if_splits)
        with e(1,3,4) e2 cn al show ?thesis by (simp add: okNode_def)
      qed
    qed
    moreover have "length stk = Suc ind"
      using il by (simp add: stk)
    ultimately show ?thesis
      using stk_ne stk_hd stk_slots
      by (auto simp: wf_def e(1,3,4) e2 less_Suc_eq dest: stk_slots)
  qed
qed

lemma wf_initialVars: "wf initialVars"
  by (simp add: wf_def initialVars_def)

lemma parseLines_wf: "wf s \<Longrightarrow> parseLines s lts = Inr s' \<Longrightarrow> wf s'"
proof (induction lts arbitrary: s)
  case Nil
  then show ?case by simp
next
  case (Cons lt lts)
  then show ?case
    by (auto split: sum.splits dest: parseLine_wf)
qed

lemma parseLine_last: "parseLine s lt = Inr s' \<Longrightarrow> lastLineToken s' = Some lt"
  by (auto simp: parseLine_def split: if_splits sum.splits)

lemma parseLines_last:
  "parseLines s lts = Inr s' \<Longrightarrow> lts \<noteq> [] \<Longrightarrow> lastLineToken s' = Some (last lts)"
proof (induction lts arbitrary: s)
  case Nil
  then show ?case by simp
next
  case (Cons lt lts)
  then show ?case
    by (cases lts) (auto split: sum.splits dest: parseLine_last)
qed

lemma parseLines_append:
  "parseLines s (lts @ [lt]) =
     (case parseLines s lts of Inl e \<Rightarrow> Inl e | Inr s' \<Rightarrow> parseLine s' lt)"
  by (induction lts arbitrary: s) (auto split: sum.splits)

lemma freeze_Nil: "b < length arrs \<Longrightarrow> arrs ! b \<noteq> [] \<Longrightarrow> freeze arrs b \<noteq> []"
  by (subst freeze.simps) simp

lemma freeze_ok:
  assumes "frozenOK arrs"
  shows "list_all nonEmptyBodies (freeze arrs a) \<and> list_all callStatements (freeze arrs a)"
  using assms
proof (induction arrs a rule: freeze.induct)
  case (1 arrs a)
  show ?case
  proof (cases "a < length arrs")
    case False
    then show ?thesis by (subst freeze.simps, subst freeze.simps) simp
  next
    case True
    have "nonEmptyBodies (case n of
                      AssignmentNode left right \<Rightarrow> AssignmentStatement left right
                    | ExpressionNode expression \<Rightarrow> ExpressionStatement expression
                    | IfNode test body \<Rightarrow>
                        IfStatement test (if a < body then freeze arrs body else [])
                    | WhileNode test body \<Rightarrow>
                        WhileStatement test (if a < body then freeze arrs body else [])
                    | ConstantNode left right \<Rightarrow> ConstantStatement left right
                    | FunctionNode identifier params body \<Rightarrow>
                        FunctionDeclaration identifier params
                          (if a < body then freeze arrs body else [])) \<and>
          callStatements (case n of
                      AssignmentNode left right \<Rightarrow> AssignmentStatement left right
                    | ExpressionNode expression \<Rightarrow> ExpressionStatement expression
                    | IfNode test body \<Rightarrow>
                        IfStatement test (if a < body then freeze arrs body else [])
                    | WhileNode test body \<Rightarrow>
                        WhileStatement test (if a < body then freeze arrs body else [])
                    | ConstantNode left right \<Rightarrow> ConstantStatement left right
                    | FunctionNode identifier params body \<Rightarrow>
                        FunctionDeclaration identifier params
                          (if a < body then freeze arrs body else []))"
      if n: "n \<in> set (arrs ! a)" for n
    proof -
      from "1.prems" True n have cb: "callNode n \<and>
          (\<forall>b. bodyRef n = Some b \<longrightarrow> a < b \<and> b < length arrs \<and> arrs ! b \<noteq> [])"
        unfolding frozenOK_def by blast
      then have c: "callNode n"
        and b: "\<And>b. bodyRef n = Some b \<Longrightarrow> a < b \<and> b < length arrs \<and> arrs ! b \<noteq> []"
        by simp_all
      show ?thesis
        using c b "1.IH" [OF True n _ _ "1.prems"]
        by (cases n) (auto simp: freeze_Nil)
    qed
    then show ?thesis
      using True by (subst freeze.simps, subst (2) freeze.simps) (simp add: list_all_iff)
  qed
qed

lemma wf_frozenOK: "wf s \<Longrightarrow> minIndent s = None \<Longrightarrow> frozenOK (arrays s)"
  unfolding wf_def frozenOK_def okNode_def by blast

lemma parse_Program:
  assumes "parse lts = Inr (Program body)"
  shows "\<exists>s. parseLines initialVars lts = Inr s \<and> minIndent s = None \<and> body = freeze (arrays s) 0"
proof -
  from assms obtain s where s: "parseLines initialVars lts = Inr s"
    and r: "minIndent s = None \<or> lastLineToken s = None" and b: "body = freeze (arrays s) 0"
    by (auto simp: parse_def split: sum.splits option.splits)
  have "minIndent s = None"
  proof (cases lts)
    case Nil
    with s show ?thesis by (auto simp: initialVars_def)
  next
    case (Cons lt lts')
    with parseLines_last [OF s] r show ?thesis by simp
  qed
  with s b show ?thesis by blast
qed

lemma parse_ok:
  assumes "parse lts = Inr (Program body)"
  shows "list_all nonEmptyBodies body \<and> list_all callStatements body"
proof -
  from parse_Program [OF assms] obtain s where s: "parseLines initialVars lts = Inr s"
    "minIndent s = None" "body = freeze (arrays s) 0" by blast
  from parseLines_wf [OF wf_initialVars s(1)] s(2) have "frozenOK (arrays s)"
    by (rule wf_frozenOK)
  from freeze_ok [OF this] s(3) show ?thesis by simp
qed

lemma dispatch_block:
  "opensBlock lt \<Longrightarrow> dispatch s col ind (tokens lt) = Inr s' \<Longrightarrow> minIndent s' \<noteq> None"
  unfolding dispatch_def opensBlock_def
  by (auto split: list.splits token.splits simp: pushed_block_def
      dest!: parseBlock_effect parseDef_effect)

lemma parseLine_block:
  "opensBlock lt \<Longrightarrow> parseLine s lt = Inr s' \<Longrightarrow> minIndent s' \<noteq> None \<and> lastLineToken s' = Some lt"
  by (auto simp: parseLine_def split: if_splits sum.splits dest: dispatch_block)

lemma block_last:
  assumes "opensBlock lt"
  shows "(\<forall>p. parse (lts @ [lt]) \<noteq> Inr p) \<and>
         (\<forall>s. parseLines initialVars (lts @ [lt]) = Inr s \<longrightarrow>
            parse (lts @ [lt]) = Inl (ParseError (showNat (column lt)
               @ '': There is no body for the last `if` or `while` or `def` statement'')))"
proof -
  have "parse (lts @ [lt]) = Inl (ParseError (showNat (column lt)
               @ '': There is no body for the last `if` or `while` or `def` statement''))"
    if "parseLines initialVars (lts @ [lt]) = Inr s" for s
  proof -
    from that obtain s0 where "parseLine s0 lt = Inr s"
      by (auto simp: parseLines_append split: sum.splits)
    from parseLine_block [OF assms this] that show ?thesis
      by (auto simp: parse_def lineError_def)
  qed
  then show ?thesis
    by (auto simp: parse_def split: sum.splits)
qed

lemma expression_line:
  assumes "at (tokens lt) 0 = Some token"
    and "is_IdentifierToken (type token) \<or> type token = MemoryToken"
    and "findIndex (\<lambda>t. type t = AssignmentToken) (tokens lt) = None"
  shows "parseLine s lt = Inr s' \<Longrightarrow>
           \<exists>callee arguments a.
             parseExpression (column lt) (tokens lt) None = Inr (CallExpression callee arguments) \<and>
             arrays s' =
               (arrays s)[a := arrays s ! a @ [ExpressionNode (CallExpression callee arguments)]]"
    and "\<not> indentViolation s (indent lt) \<Longrightarrow>
         parseExpression (column lt) (tokens lt) None = Inr e \<Longrightarrow> \<not> is_CallExpression e \<Longrightarrow>
         parseLine s lt = Inl (ParseError (showNat (column lt) @ '': This expression has no effect''))"
proof -
  from assms(1) obtain rest where t: "tokens lt = token # rest"
    by (cases "tokens lt") (auto simp: at_def)
  have d: "dispatch s0 (column lt) (indent lt) (tokens lt) =
           parseSimple s0 (column lt) (indent lt) (tokens lt)" for s0
    using assms(2) t by (cases "type token") (auto simp: dispatch_def)
  {
    assume "parseLine s lt = Inr s'"
    then obtain s0 s2 where "parseSimple s0 (column lt) (indent lt) (tokens lt) = Inr s2"
      and "arrays s0 = arrays s" and "arrays s' = arrays s2"
      by (auto simp: parseLine_def d split: if_splits sum.splits)
    then show "\<exists>callee arguments a.
             parseExpression (column lt) (tokens lt) None = Inr (CallExpression callee arguments) \<and>
             arrays s' =
               (arrays s)[a := arrays s ! a @ [ExpressionNode (CallExpression callee arguments)]]"
      using assms(3)
      by (auto simp: parseSimple_def is_CallExpression_def split: sum.splits if_splits
          dest!: pushTo_Inr)
  }
  {
    assume "\<not> indentViolation s (indent lt)"
      "parseExpression (column lt) (tokens lt) None = Inr e" "\<not> is_CallExpression e"
    then show "parseLine s lt = Inl (ParseError (showNat (column lt) @ '': This expression has no effect''))"
      using assms(3) by (simp add: parseLine_def d parseSimple_def lineError_def)
  }
qed

lemma wf_slot:
  assumes "wf s" and "lastSlot (setLength (Suc i) (statements s)) = Some (Some a)"
  shows "a < length (arrays s)"
proof -
  from lastSlot_setLength [OF assms(2)]
  have "i < length (statements s)" "statements s ! i = Some a" by simp_all
  then have "Some a \<in> set (statements s)" by (metis nth_mem)
  with assms(1) show ?thesis unfolding wf_def by auto
qed

lemma call_line_pushes:
  assumes "at (tokens lt) 0 = Some token"
    and "is_IdentifierToken (type token) \<or> type token = MemoryToken"
    and "findIndex (\<lambda>t. type t = AssignmentToken) (tokens lt) = None"
    and "parseLine s lt = Inr s'"
  shows "\<exists>callee arguments a.
           parseExpression (column lt) (tokens lt) None = Inr (CallExpression callee arguments) \<and>
           lastSlot (setLength (indent lt + 1) (statements s)) = Some (Some a) \<and>
           arrays s' =
             (arrays s)[a := arrays s ! a @ [ExpressionNode (CallExpression callee arguments)]] \<and>
           statements s' = setLength (indent lt + 1) (statements s) \<and>
           minIndent s' = None \<and> maxIndent s' = Some (indent lt) \<and>
           (parseLines initialVars pre = Inr s \<longrightarrow>
              a < length (arrays s) \<and>
              arrays s' ! a =
                arrays s ! a @ [ExpressionNode (CallExpression callee arguments)])"
proof -
  from assms(1) obtain rest where t: "tokens lt = token # rest"
    by (cases "tokens lt") (auto simp: at_def)
  have d: "dispatch s0 (column lt) (indent lt) (tokens lt) =
           parseSimple s0 (column lt) (indent lt) (tokens lt)" for s0
    using assms(2) t by (cases "type token") (auto simp: dispatch_def)
  define s0 where "s0 = s\<lparr>minIndent := None, maxIndent := None,
                     statements := setLength (indent lt + 1) (statements s)\<rparr>"
  from assms(4) obtain s2 where s2: "parseSimple s0 (column lt) (indent lt) (tokens lt) = Inr s2"
    and s': "s' = s2\<lparr>lastLineToken := Some lt\<rparr>"
    by (auto simp: parseLine_def d s0_def split: if_splits sum.splits)
  from s2 assms(3) obtain e arrs
    where e: "parseExpression (column lt) (tokens lt) None = Inr e" "is_CallExpression e"
      and p: "pushTo (lastSlot (statements s0)) (ExpressionNode e) (arrays s0) = Inr arrs"
      and s2': "s2 = s0\<lparr>arrays := arrs, maxIndent := Some (indent lt)\<rparr>"
    by (auto simp: parseSimple_def split: sum.splits if_splits)
  from e(2) obtain callee arguments where c: "e = CallExpression callee arguments"
    by (cases e) auto
  from pushTo_Inr [OF p] obtain a
    where a: "lastSlot (statements s0) = Some (Some a)"
      "arrs = (arrays s0)[a := arrays s0 ! a @ [ExpressionNode e]]"
    by blast
  have f: "arrays s' = (arrays s)[a := arrays s ! a @ [ExpressionNode e]]"
    "statements s' = setLength (indent lt + 1) (statements s)"
    "minIndent s' = None" "maxIndent s' = Some (indent lt)"
    "lastSlot (setLength (indent lt + 1) (statements s)) = Some (Some a)"
    using a by (simp_all add: s' s2' s0_def)
  have r: "a < length (arrays s) \<and> arrays s' ! a = arrays s ! a @ [ExpressionNode e]"
    if "parseLines initialVars pre = Inr s"
  proof -
    from parseLines_wf [OF wf_initialVars that] have "wf s" .
    from wf_slot [OF this] f(5) have "a < length (arrays s)" by simp
    with f(1) show ?thesis by simp
  qed
  from e(1) f r show ?thesis
    unfolding c by blast
qed

lemma single_call_line:
  assumes "at (tokens lt) 0 = Some token"
    and "is_IdentifierToken (type token) \<or> type token = MemoryToken"
    and "findIndex (\<lambda>t. type t = AssignmentToken) (tokens lt) = None"
    and "parseLine initialVars lt = Inr s'"
  shows "\<exists>callee arguments.
           parseExpression (column lt) (tokens lt) None = Inr (CallExpression callee arguments) \<and>
           parse [lt] = Inr (Program [ExpressionStatement (CallExpression callee arguments)])"
proof -
  from call_line_pushes [OF assms, of "[]"] obtain callee arguments a
    where e: "parseExpression (column lt) (tokens lt) None = Inr (CallExpression callee arguments)"
      and sl: "lastSlot (setLength (indent lt + 1) (statements initialVars)) = Some (Some a)"
      and arr: "arrays s' = (arrays initialVars)
                  [a := arrays initialVars ! a @ [ExpressionNode (CallExpression callee arguments)]]"
      and m: "minIndent s' = None"
      and al: "a < length (arrays initialVars)"
    by auto
  from al have a0: "a = 0" by (simp add: initialVars_def)
  have "arrays s' = [[ExpressionNode (CallExpression callee arguments)]]"
    using arr unfolding a0 by (simp add: initialVars_def)
  then have "freeze (arrays s') 0 = [ExpressionStatement (CallExpression callee arguments)]"
    by (simp add: freeze.simps)
  with assms(4) m have "parse [lt] = Inr (Program [ExpressionStatement (CallExpression callee arguments)])"
    by (simp add: parse_def)
  with e show ?thesis by blast
qed

section \<open>The claims\<close>

text \<open>
  C1.  Every binary expression of a parsed program should have a right operand that is
  not a binary expression, \<open>x -> 1 + 2 + 3 + 4\<close> giving \<open>((1 + 2) + 3) + 4\<close>.  The
  rotation loop only looks at the right operand of the root: the operand it moves to
  the left is never normalised again, and with four operands the code returns
  \<open>(1 + (2 + 3)) + 4\<close>.
\<close>

theorem four_operands_not_left_associative:
  "parseToTokens (str ''x -> 1 + 2 + 3 + 4'') =
     Inr [\<lparr>column = 1, indent = 0,
           tokens =
             [Tok (IdentifierToken (str ''x'')) 1, Tok AssignmentToken 3,
              Tok (NumericLiteralToken (str ''1'')) 6, Tok (OperatorToken (str ''+'')) 8,
              Tok (NumericLiteralToken (str ''2'')) 10, Tok (OperatorToken (str ''+'')) 12,
              Tok (NumericLiteralToken (str ''3'')) 14, Tok (OperatorToken (str ''+'')) 16,
              Tok (NumericLiteralToken (str ''4'')) 18]\<rparr>] \<and>
   compile (str ''x -> 1 + 2 + 3 + 4'') =
     Inr (Program
       [AssignmentStatement (Identifier (str ''x''))
         (BinaryExpression (str ''+'')
           (BinaryExpression (str ''+'') (NumericLiteral 1)
             (BinaryExpression (str ''+'') (NumericLiteral 2) (NumericLiteral 3)))
           (NumericLiteral 4))])"
proof -
  have tokens:
    "parseToTokens (str ''x -> 1 + 2 + 3 + 4'') =
       Inr [\<lparr>column = 1, indent = 0,
             tokens =
               [Tok (IdentifierToken (str ''x'')) 1, Tok AssignmentToken 3,
                Tok (NumericLiteralToken (str ''1'')) 6, Tok (OperatorToken (str ''+'')) 8,
                Tok (NumericLiteralToken (str ''2'')) 10, Tok (OperatorToken (str ''+'')) 12,
                Tok (NumericLiteralToken (str ''3'')) 14, Tok (OperatorToken (str ''+'')) 16,
                Tok (NumericLiteralToken (str ''4'')) 18]\<rparr>]"
    by (simp add: tokenise_eval)
  show ?thesis
    unfolding compile_def tokens by (simp add: parse_eval)
qed

text \<open>
  C2.  The indent of an emitted line should be at most one more than the largest indent
  emitted before it, also when blank or comment-only lines lie between.  The code
  updates the indent stack for every non-empty line, before it looks whether the line
  has tokens: a comment line indented by 2 pushes a level that no emitted line has, and
  the line below it, indented by 4, is emitted with indent 2 right after a line of
  indent 0.  On these line tokens \<open>parse\<close> extends its stack by an empty slot and fails
  with a \<open>TypeError\<close>.
\<close>

theorem comment_line_moves_indent_stack:
  "parseToTokens (str ''while x\<newline>  # body\<newline>    f()'') =
     Inr [\<lparr>column = 1, indent = 0,
           tokens = [Tok WhileToken 1, Tok (IdentifierToken (str ''x'')) 7]\<rparr>,
          \<lparr>column = 3, indent = 2,
           tokens =
             [Tok (IdentifierToken (str ''f'')) 1, Tok ParentheseStartToken 2,
              Tok ParentheseEndToken 3]\<rparr>] \<and>
   compile (str ''while x\<newline>  # body\<newline>    f()'') = Inl TypeError"
proof -
  have tokens:
    "parseToTokens (str ''while x\<newline>  # body\<newline>    f()'') =
       Inr [\<lparr>column = 1, indent = 0,
             tokens = [Tok WhileToken 1, Tok (IdentifierToken (str ''x'')) 7]\<rparr>,
            \<lparr>column = 3, indent = 2,
             tokens =
               [Tok (IdentifierToken (str ''f'')) 1, Tok ParentheseStartToken 2,
                Tok ParentheseEndToken 3]\<rparr>]"
    by (simp add: tokenise_eval)
  show ?thesis
    unfolding compile_def tokens by (simp add: parse_eval)
qed




text \<open>
  C4.  The source \<open>/* a /* b */ c */ x -> 1\<close> should tokenise to the result of
  \<open>x -> 1\<close>.  It does tokenise, to the same line, indent and tokens, but every row is
  a position in the line and so larger by 18, the length of the comment and the space
  behind it.
\<close>

theorem nested_comment_differs_in_rows:
  "parseToTokens (str ''/* a /* b */ c */ x -> 1'') \<noteq> parseToTokens (str ''x -> 1'')"
  by (simp add: tokenise_eval)

text \<open>
  C4, as the code has it.  The line tokens of \<open>/* a /* b */ c */ x -> 1\<close> are those of
  \<open>x -> 1\<close> with every row moved by 18.
\<close>

theorem nested_comment_shifts_rows:
  "parseToTokens (str ''x -> 1'') =
     Inr [\<lparr>column = 1, indent = 0,
           tokens =
             [Tok (IdentifierToken (str ''x'')) 1, Tok AssignmentToken 3,
              Tok (NumericLiteralToken (str ''1'')) 6]\<rparr>] \<and>
   parseToTokens (str ''/* a /* b */ c */ x -> 1'') =
     Inr (map (shiftRows 18)
       [\<lparr>column = 1, indent = 0,
         tokens =
           [Tok (IdentifierToken (str ''x'')) 1, Tok AssignmentToken 3,
            Tok (NumericLiteralToken (str ''1'')) 6]\<rparr>])"
  by (simp add: tokenise_eval shiftRows_def)

text \<open>
  C5.  A block comment still open at the end of the input should be reported as a parse
  error at the last line of the input.  The code takes the line number from the last
  line token it has pushed: with none pushed it reads a property of \<open>undefined\<close>, a
  \<open>TypeError\<close>, and otherwise it names the last line that has a token, here line 1 of
  an input whose comment opens on line 2.
\<close>

theorem unclosed_comment_reports_last_token_line:
  "parseToTokens (str ''/* a'') = Inl TypeError \<and>
   parseToTokens (str ''x -> 1\<newline>/* a'') =
     Inl (ParseError ''1: The multi-line comment is not closed'')"
  by (simp add: tokenise_eval)

text \<open>
  C6.  A numeric literal token with digit string \<open>d\<close>, met where an operand is expected,
  is read as the base-10 integer \<open>d\<close>, negated when the pending state is unary minus.
  The parse goes on (to the literal itself when no token follows, to the operator
  behind it otherwise) exactly when that value is a signed 32-bit integer, and fails
  with \<open><col> <row>: Out of range integer value\<close> when it is not.
\<close>

theorem numeric_literal_range:
  assumes "digitString d" and "expectsOperand st"
  shows "parseExpression col (Tok (NumericLiteralToken d) r # rest) st =
     (if int32 (signedValue st d)
      then (if rest = [] then Inr (NumericLiteral (signedValue st d))
            else parseExpression col rest (Some (Binary (NumericLiteral (signedValue st d)))))
      else Inl (ParseError (showNat col @ '' '' @ showNat r @ '': Out of range integer value'')))"
  using assms by (rule literal_operand)

theorem numeric_literal_range_witness:
  "digitString (str ''2147483648'') \<and> expectsOperand (Some (Unary (str ''-''))) \<and>
   parseExpression 1 [Tok (NumericLiteralToken (str ''2147483648'')) 7]
     (Some (Unary (str ''-''))) = Inr (NumericLiteral (- 2147483648)) \<and>
   digitString (str ''9999999999'') \<and> expectsOperand None \<and>
   parseExpression 1 [Tok (NumericLiteralToken (str ''9999999999'')) 6] None =
     Inl (ParseError ''1 6: Out of range integer value'')"
proof -
  have d: "digitString (str ''2147483648'')" "digitString (str ''9999999999'')"
    by (simp_all add: digitString_def isDigit_def str_def)
  have s: "expectsOperand (Some (Unary (str ''-'')))" "expectsOperand None"
    by (simp_all add: expectsOperand_def)
  have v: "signedValue (Some (Unary (str ''-''))) (str ''2147483648'') = - 2147483648"
    "signedValue None (str ''9999999999'') = 9999999999"
    by (simp_all add: signedValue_def decimalValue_def str_def)
  show ?thesis
    using d s
      numeric_literal_range [OF d(1) s(1), of 1 7 "[]"]
      numeric_literal_range [OF d(2) s(2), of 1 6 "[]"]
    by (simp add: v int32_def showNat.simps digitChar_def)
qed

text \<open>
  C7.  In a program that \<open>parse\<close> returns, every \<open>if\<close>, \<open>while\<close> and function
  declaration has a non-empty body; and when the last line opens such a block, \<open>parse\<close>
  returns no program: if no line has raised before, it fails with
  \<open><column>: There is no body for the last `if` or `while` or `def` statement\<close>.
\<close>

theorem bodies_not_empty:
  "(parse lts = Inr (Program body) \<longrightarrow> list_all nonEmptyBodies body) \<and>
   (opensBlock lt \<longrightarrow>
      (\<forall>p. parse (lts' @ [lt]) \<noteq> Inr p) \<and>
      (\<forall>s. parseLines initialVars (lts' @ [lt]) = Inr s \<longrightarrow>
         parse (lts' @ [lt]) =
           Inl (ParseError (showNat (column lt)
                  @ '': There is no body for the last `if` or `while` or `def` statement''))))"
  using parse_ok [of lts body] block_last [of lt lts'] by blast

theorem bodies_not_empty_witness:
  "parse [\<lparr>column = 1, indent = 0, tokens = [Tok IfToken 1, Tok (IdentifierToken (str ''x'')) 4]\<rparr>,
          \<lparr>column = 2, indent = 1,
           tokens = [Tok (IdentifierToken (str ''y'')) 1, Tok AssignmentToken 3,
                     Tok (NumericLiteralToken (str ''1'')) 6]\<rparr>] =
     Inr (Program [IfStatement (Identifier (str ''x''))
                     [AssignmentStatement (Identifier (str ''y'')) (NumericLiteral 1)]]) \<and>
   list_all nonEmptyBodies
     [IfStatement (Identifier (str ''x''))
        [AssignmentStatement (Identifier (str ''y'')) (NumericLiteral 1)]] \<and>
   opensBlock \<lparr>column = 1, indent = 0, tokens = [Tok IfToken 1, Tok (IdentifierToken (str ''x'')) 4]\<rparr> \<and>
   parse [\<lparr>column = 1, indent = 0, tokens = [Tok IfToken 1, Tok (IdentifierToken (str ''x'')) 4]\<rparr>] =
     Inl (ParseError ''1: There is no body for the last `if` or `while` or `def` statement'')"
proof -
  let ?l1 = "\<lparr>column = 1, indent = 0, tokens = [Tok IfToken 1, Tok (IdentifierToken (str ''x'')) 4]\<rparr>"
  let ?l2 = "\<lparr>column = 2, indent = 1,
           tokens = [Tok (IdentifierToken (str ''y'')) 1, Tok AssignmentToken 3,
                     Tok (NumericLiteralToken (str ''1'')) 6]\<rparr>"
  let ?body = "[IfStatement (Identifier (str ''x''))
                     [AssignmentStatement (Identifier (str ''y'')) (NumericLiteral 1)]]"
  have p: "parse [?l1, ?l2] = Inr (Program ?body)"
    by (simp add: parse_eval)
  have o: "opensBlock ?l1"
    by (simp add: opensBlock_def)
  have l: "\<exists>s. parseLines initialVars ([] @ [?l1]) = Inr s"
    by (simp add: parse_eval)
  note w = bodies_not_empty [of "[?l1, ?l2]" ?body ?l1 "[]"]
  from w p have 1: "list_all nonEmptyBodies ?body" by blast
  from w o l have 2: "parse [?l1] =
     Inl (ParseError ''1: There is no body for the last `if` or `while` or `def` statement'')"
    by (auto simp: showNat.simps digitChar_def)
  from p 1 o 2 show ?thesis by blast
qed

text \<open>
  C8.  A line that begins with an identifier or \<open>memory\<close> and has no assignment token
  is accepted only if the whole line parses to a call.  The expression statement of
  that call is then pushed to the array in the top slot of the stack: in a state that
  the loop has reached, the slot holds an array of the store, which grows by exactly
  this statement, and as the only line of the input the line gives the program of this
  one expression statement.  With any other expression the line fails with
  \<open><column>: This expression has no effect\<close>.  So every expression statement of a
  program that \<open>parse\<close> returns holds a call.
\<close>

theorem expression_statements_are_calls:
  "(at (tokens lt) 0 = Some token \<and>
    (is_IdentifierToken (type token) \<or> type token = MemoryToken) \<and>
    findIndex (\<lambda>t. type t = AssignmentToken) (tokens lt) = None \<longrightarrow>
      (parseLine s lt = Inr s' \<longrightarrow>
         (\<exists>callee arguments a.
            parseExpression (column lt) (tokens lt) None = Inr (CallExpression callee arguments) \<and>
            lastSlot (setLength (indent lt + 1) (statements s)) = Some (Some a) \<and>
            arrays s' =
              (arrays s)[a := arrays s ! a @ [ExpressionNode (CallExpression callee arguments)]] \<and>
            (parseLines initialVars pre = Inr s \<longrightarrow>
               a < length (arrays s) \<and>
               arrays s' ! a =
                 arrays s ! a @ [ExpressionNode (CallExpression callee arguments)]))) \<and>
      (parseLine initialVars lt = Inr s'' \<longrightarrow>
         (\<exists>callee arguments.
            parseExpression (column lt) (tokens lt) None = Inr (CallExpression callee arguments) \<and>
            parse [lt] =
              Inr (Program [ExpressionStatement (CallExpression callee arguments)]))) \<and>
      (\<forall>e. \<not> indentViolation s (indent lt) \<and>
           parseExpression (column lt) (tokens lt) None = Inr e \<and> \<not> is_CallExpression e \<longrightarrow>
           parseLine s lt =
             Inl (ParseError (showNat (column lt) @ '': This expression has no effect'')))) \<and>
   (parse lts = Inr (Program body) \<longrightarrow> list_all callStatements body)"
proof (intro conjI impI allI)
  assume h: "at (tokens lt) 0 = Some token \<and>
    (is_IdentifierToken (type token) \<or> type token = MemoryToken) \<and>
    findIndex (\<lambda>t. type t = AssignmentToken) (tokens lt) = None"
  {
    assume "parseLine s lt = Inr s'"
    with h call_line_pushes [of lt token s s' pre]
    show "\<exists>callee arguments a.
            parseExpression (column lt) (tokens lt) None = Inr (CallExpression callee arguments) \<and>
            lastSlot (setLength (indent lt + 1) (statements s)) = Some (Some a) \<and>
            arrays s' =
              (arrays s)[a := arrays s ! a @ [ExpressionNode (CallExpression callee arguments)]] \<and>
            (parseLines initialVars pre = Inr s \<longrightarrow>
               a < length (arrays s) \<and>
               arrays s' ! a =
                 arrays s ! a @ [ExpressionNode (CallExpression callee arguments)])"
      by blast
  }
  {
    assume "parseLine initialVars lt = Inr s''"
    with h single_call_line [of lt token s'']
    show "\<exists>callee arguments.
            parseExpression (column lt) (tokens lt) None = Inr (CallExpression callee arguments) \<and>
            parse [lt] =
              Inr (Program [ExpressionStatement (CallExpression callee arguments)])"
      by blast
  }
  {
    fix e
    assume "\<not> indentViolation s (indent lt) \<and>
           parseExpression (column lt) (tokens lt) None = Inr e \<and> \<not> is_CallExpression e"
    with h expression_line(2) [of lt token s e]
    show "parseLine s lt =
             Inl (ParseError (showNat (column lt) @ '': This expression has no effect''))"
      by blast
  }
next
  assume "parse lts = Inr (Program body)"
  then show "list_all callStatements body"
    using parse_ok by blast
qed

theorem expression_statements_are_calls_witness:
  "parseLine initialVars
     \<lparr>column = 1, indent = 0,
      tokens = [Tok (IdentifierToken (str ''f'')) 1, Tok ParentheseStartToken 2,
                Tok (NumericLiteralToken (str ''1'')) 3, Tok ParentheseEndToken 4]\<rparr> =
     Inr \<lparr>arrays =
            [[ExpressionNode (CallExpression (Identifier (str ''f'')) [NumericLiteral 1])]],
          statements = [Some 0], minIndent = None, maxIndent = Some 0,
          lastLineToken =
            Some \<lparr>column = 1, indent = 0,
                  tokens = [Tok (IdentifierToken (str ''f'')) 1, Tok ParentheseStartToken 2,
                            Tok (NumericLiteralToken (str ''1'')) 3, Tok ParentheseEndToken 4]\<rparr>\<rparr> \<and>
   parse [\<lparr>column = 1, indent = 0,
           tokens = [Tok (IdentifierToken (str ''f'')) 1, Tok ParentheseStartToken 2,
                     Tok (NumericLiteralToken (str ''1'')) 3, Tok ParentheseEndToken 4]\<rparr>] =
     Inr (Program [ExpressionStatement (CallExpression (Identifier (str ''f'')) [NumericLiteral 1])]) \<and>
   list_all callStatements
     [ExpressionStatement (CallExpression (Identifier (str ''f'')) [NumericLiteral 1])] \<and>
   parseExpression 1 [Tok (IdentifierToken (str ''x'')) 1, Tok (OperatorToken (str ''+'')) 3,
                      Tok (NumericLiteralToken (str ''1'')) 5] None =
     Inr (BinaryExpression (str ''+'') (Identifier (str ''x'')) (NumericLiteral 1)) \<and>
   parseLine initialVars
     \<lparr>column = 1, indent = 0,
      tokens = [Tok (IdentifierToken (str ''x'')) 1, Tok (OperatorToken (str ''+'')) 3,
                Tok (NumericLiteralToken (str ''1'')) 5]\<rparr> =
     Inl (ParseError ''1: This expression has no effect'')"
proof -
  let ?f = "\<lparr>column = 1, indent = 0,
           tokens = [Tok (IdentifierToken (str ''f'')) 1, Tok ParentheseStartToken 2,
                     Tok (NumericLiteralToken (str ''1'')) 3, Tok ParentheseEndToken 4]\<rparr>"
  let ?x = "\<lparr>column = 1, indent = 0,
      tokens = [Tok (IdentifierToken (str ''x'')) 1, Tok (OperatorToken (str ''+'')) 3,
                Tok (NumericLiteralToken (str ''1'')) 5]\<rparr>"
  let ?call = "CallExpression (Identifier (str ''f'')) [NumericLiteral 1]"
  let ?body = "[ExpressionStatement ?call]"
  let ?s' = "\<lparr>arrays = [[ExpressionNode ?call]], statements = [Some 0], minIndent = None,
             maxIndent = Some 0, lastLineToken = Some ?f\<rparr>"
  let ?e = "BinaryExpression (str ''+'') (Identifier (str ''x'')) (NumericLiteral 1)"
  have pl: "parseLine initialVars ?f = Inr ?s'"
    by (simp add: parse_eval)
  have pe: "parseExpression (column ?f) (tokens ?f) None = Inr ?call"
    by (simp add: parse_eval)
  have hf: "at (tokens ?f) 0 = Some (Tok (IdentifierToken (str ''f'')) 1)"
    "is_IdentifierToken (type (Tok (IdentifierToken (str ''f'')) 1))"
    "findIndex (\<lambda>t. type t = AssignmentToken) (tokens ?f) = None"
    by (simp_all add: at_def)
  note wf = expression_statements_are_calls
    [of ?f "Tok (IdentifierToken (str ''f'')) 1" initialVars ?s' "[]" ?s' "[?f]" ?body]
  from wf hf pl pe have p: "parse [?f] = Inr (Program ?body)"
    by auto
  from wf p have 1: "list_all callStatements ?body" by blast
  have e: "parseExpression (column ?x) (tokens ?x) None = Inr ?e"
    by (simp add: parse_eval)
  have h: "at (tokens ?x) 0 = Some (Tok (IdentifierToken (str ''x'')) 1)"
    "is_IdentifierToken (type (Tok (IdentifierToken (str ''x'')) 1))"
    "findIndex (\<lambda>t. type t = AssignmentToken) (tokens ?x) = None"
    "\<not> indentViolation initialVars (indent ?x)" "\<not> is_CallExpression ?e"
    by (simp_all add: at_def indentViolation_def initialVars_def)
  note w = expression_statements_are_calls
    [of ?x "Tok (IdentifierToken (str ''x'')) 1" initialVars initialVars "[]" initialVars "[?f]" ?body]
  from w h e have "parseLine initialVars ?x =
     Inl (ParseError (showNat (column ?x) @ '': This expression has no effect''))"
    by blast
  then have 2: "parseLine initialVars ?x = Inl (ParseError ''1: This expression has no effect'')"
    by (simp add: showNat.simps digitChar_def)
  from pl p 1 e 2 show ?thesis by simp
qed

text \<open>
  C9.  A line that is the keyword \<open>const\<close> alone should be refused with a parse error at
  the position of \<open>const\<close>.  At indent 0 the code builds the message of its error from
  the row of the token behind \<open>const\<close>; there is none, and reading the row of
  \<open>undefined\<close> is a \<open>TypeError\<close>, not a \<open>ParseError\<close>.
\<close>

theorem const_alone_is_TypeError:
  "parse [\<lparr>column = 1, indent = 0, tokens = [Tok ConstToken 1]\<rparr>] = Inl TypeError"
  by (simp add: parse_eval)



end
